theory Spec2Isabelle
  imports Main "HOL-Library.Word" "HOL-Library.Sublist"
begin

unbundle bit_operations_syntax

section \<open>The research-paper repository of resarch.py\<close>

text \<open>
  The program is one Python class, \<^verbatim>\<open>ResearchPaperRepository\<close>, on top of an SQLite
  database and the local filesystem. The model below states the database as a record
  (the rows of \<^verbatim>\<open>papers\<close>, the FTS5 index when it exists, the AUTOINCREMENT counter),
  the filesystem as a map from paths to byte contents, every exception as a value of
  the type \<open>error\<close>, and the SQL statements by what SQLite evaluates for them.
  What the database engine and the host decide (whether FTS5 is compiled in, what an
  FTS5 query matches, what \<^verbatim>\<open>strftime\<close> returns, the bytes FPDF writes, the clock)
  is a parameter.
\<close>

subsection \<open>hashlib.sha256\<close>

text \<open>
  \<^verbatim>\<open>hashlib.sha256()\<close> is a running SHA-256 accumulator: the eight chaining words, the
  bytes that do not yet fill a 64-byte block, and the number of bytes fed so far.
\<close>

type_synonym byte = "8 word"
type_synonym u32 = "32 word"

text \<open>
  The sixty-four round constants (FIPS 180-4, section 4.2.2) and the initial chaining
  value (section 5.3.3), written in decimal.
\<close>

definition K256 :: "u32 list" where
  "K256 = [
    1116352408, 1899447441, 3049323471, 3921009573, 961987163, 1508970993,
    2453635748, 2870763221, 3624381080, 310598401, 607225278, 1426881987,
    1925078388, 2162078206, 2614888103, 3248222580, 3835390401, 4022224774,
    264347078, 604807628, 770255983, 1249150122, 1555081692, 1996064986,
    2554220882, 2821834349, 2952996808, 3210313671, 3336571891, 3584528711,
    113926993, 338241895, 666307205, 773529912, 1294757372, 1396182291,
    1695183700, 1986661051, 2177026350, 2456956037, 2730485921, 2820302411,
    3259730800, 3345764771, 3516065817, 3600352804, 4094571909, 275423344,
    430227734, 506948616, 659060556, 883997877, 958139571, 1322822218,
    1537002063, 1747873779, 1955562222, 2024104815, 2227730452, 2361852424,
    2428436474, 2756734187, 3204031479, 3329325298]"

definition H256 :: "u32 list" where
  "H256 = [1779033703, 3144134277, 1013904242, 2773480762,
           1359893119, 2600822924, 528734635, 1541459225]"

definition Ch :: "u32 \<Rightarrow> u32 \<Rightarrow> u32 \<Rightarrow> u32" where
  "Ch x y z = (x AND y) XOR (NOT x AND z)"

definition Maj :: "u32 \<Rightarrow> u32 \<Rightarrow> u32 \<Rightarrow> u32" where
  "Maj x y z = (x AND y) XOR (x AND z) XOR (y AND z)"

definition Sigma0 :: "u32 \<Rightarrow> u32" where
  "Sigma0 x = word_rotr 2 x XOR word_rotr 13 x XOR word_rotr 22 x"

definition Sigma1 :: "u32 \<Rightarrow> u32" where
  "Sigma1 x = word_rotr 6 x XOR word_rotr 11 x XOR word_rotr 25 x"

definition sigma0 :: "u32 \<Rightarrow> u32" where
  "sigma0 x = word_rotr 7 x XOR word_rotr 18 x XOR drop_bit 3 x"

definition sigma1 :: "u32 \<Rightarrow> u32" where
  "sigma1 x = word_rotr 17 x XOR word_rotr 19 x XOR drop_bit 10 x"

text \<open>The 64 bytes of a block, read as sixteen big-endian words.\<close>

fun be_words :: "byte list \<Rightarrow> u32 list" where
  "be_words (a # b # c # d # bs) =
     (push_bit 24 (ucast a) OR push_bit 16 (ucast b) OR push_bit 8 (ucast c) OR ucast d)
       # be_words bs"
| "be_words _ = []"

text \<open>The message schedule: \<open>schedule 48\<close> extends the sixteen words to sixty-four.\<close>

fun schedule :: "nat \<Rightarrow> u32 list \<Rightarrow> u32 list" where
  "schedule 0 w = w"
| "schedule (Suc n) w =
     (let t = length w
      in schedule n
           (w @ [sigma1 (w ! (t - 2)) + w ! (t - 7) + sigma0 (w ! (t - 15)) + w ! (t - 16)]))"

fun round256 :: "u32 list \<Rightarrow> u32 \<times> u32 \<Rightarrow> u32 list" where
  "round256 [a, b, c, d, e, f, g, h] (k, w) =
     (let t1 = h + Sigma1 e + Ch e f g + k + w;
          t2 = Sigma0 a + Maj a b c
      in [t1 + t2, a, b, c, d + t1, e, f, g])"
| "round256 v _ = v"

definition compress :: "u32 list \<Rightarrow> byte list \<Rightarrow> u32 list" where
  "compress hs block =
     map2 (+) hs (foldl round256 hs (zip K256 (schedule 48 (be_words block))))"

text \<open>
  \<open>absorb\<close> runs the compression function over every complete block of its input and
  returns the chaining value with the bytes left over (fewer than 64).
\<close>

function absorb :: "u32 list \<Rightarrow> byte list \<Rightarrow> u32 list \<times> byte list" where
  "absorb hs bs =
     (if length bs < 64 then (hs, bs) else absorb (compress hs (take 64 bs)) (drop 64 bs))"
  by pat_completeness auto
termination
  by (relation "measure (\<lambda>(hs, bs). length bs)") auto

declare absorb.simps [simp del]

definition be_bytes64 :: "nat \<Rightarrow> byte list" where
  "be_bytes64 n = map (\<lambda>i. ucast (drop_bit (8 * (7 - i)) (word_of_nat n :: 64 word))) [0..<8]"

text \<open>
  The padding of a message of \<open>n\<close> bytes: the byte 0x80, zero bytes up to 56 modulo 64,
  and the length in bits as a 64-bit big-endian number.
\<close>

definition padding :: "nat \<Rightarrow> byte list" where
  "padding n = 0x80 # replicate ((119 - n mod 64) mod 64) 0 @ be_bytes64 (8 * n)"

definition hex_digit :: "nat \<Rightarrow> char" where
  "hex_digit n = ''0123456789abcdef'' ! (n mod 16)"

definition hex_u32 :: "u32 \<Rightarrow> string" where
  "hex_u32 x = map (\<lambda>i. hex_digit (unat (drop_bit (4 * (7 - i)) x AND 15))) [0..<8]"

text \<open>
  The digest of a whole byte string in one pass, as FIPS 180-4 defines it, in lowercase
  hexadecimal. This is the reference the running accumulator is compared with.
\<close>

definition sha256_hex :: "byte list \<Rightarrow> string" where
  "sha256_hex msg = concat (map hex_u32 (fst (absorb H256 (msg @ padding (length msg)))))"

text \<open>The hash object: \<^verbatim>\<open>hashlib.sha256()\<close>, \<^verbatim>\<open>.update(data)\<close>, \<^verbatim>\<open>.hexdigest()\<close>.\<close>

record sha256_obj =
  chain :: "u32 list"
  pending :: "byte list"
  fed :: nat

definition sha256_new :: sha256_obj where
  "sha256_new = \<lparr>chain = H256, pending = [], fed = 0\<rparr>"

definition update :: "sha256_obj \<Rightarrow> byte list \<Rightarrow> sha256_obj" where
  "update s data =
     (let (hs, rest) = absorb (chain s) (pending s @ data)
      in \<lparr>chain = hs, pending = rest, fed = fed s + length data\<rparr>)"

definition hexdigest :: "sha256_obj \<Rightarrow> string" where
  "hexdigest s = concat (map hex_u32 (fst (absorb (chain s) (pending s @ padding (fed s)))))"

subsection \<open>Errors, the filesystem, the host\<close>

datatype error =
  FileNotFoundError | IsADirectoryError | NotADirectoryError | PermissionError
  | IntegrityError | OperationalError

type_synonym filesystem = "string \<Rightarrow> byte list option"

text \<open>
  The filesystem maps a path to the bytes of the regular file there. What else the
  operating system and the libraries decide comes with the host: \<open>is_dir p\<close> says that
  \<open>p\<close> names a directory; \<open>output_error name\<close> is the error that \<^verbatim>\<open>open(name, 'wb')\<close>
  inside \<^verbatim>\<open>FPDF.output\<close> raises, if any (\<^verbatim>\<open>FileNotFoundError\<close> when the directory of the
  path does not exist); \<open>fpdf_bytes\<close> is what \<^verbatim>\<open>FPDF.output\<close> writes for the sample
  document; \<open>clock\<close> is \<^verbatim>\<open>datetime.now().strftime('%Y-%m-%d %H:%M:%S')\<close>.
\<close>

record host =
  fpdf_bytes :: "byte list"
  clock :: string
  is_dir :: "string \<Rightarrow> bool"
  output_error :: "string \<Rightarrow> error option"

text \<open>\<^verbatim>\<open>os.path.exists\<close>: true of a file and of a directory.\<close>

definition path_exists :: "host \<Rightarrow> filesystem \<Rightarrow> string \<Rightarrow> bool" where
  "path_exists h fs p = (is_dir h p \<or> fs p \<noteq> None)"

text \<open>
  \<^verbatim>\<open>for byte_block in iter(lambda: f.read(4096), b""): sha256_hash.update(byte_block)\<close>.
  The open file is the list of bytes not yet read; \<^verbatim>\<open>f.read(4096)\<close> returns the next
  4096 of them (fewer at the end of the file) and the loop stops at the first empty read.
\<close>

function read_blocks :: "sha256_obj \<Rightarrow> byte list \<Rightarrow> sha256_obj" where
  "read_blocks s f =
     (let byte_block = take 4096 f
      in if byte_block = [] then s else read_blocks (update s byte_block) (drop 4096 f))"
  by pat_completeness auto
termination
  by (relation "measure (\<lambda>(s, f). length f)") (auto simp: Let_def)

declare read_blocks.simps [simp del]

text \<open>
  \<^verbatim>\<open>_calculate_file_hash\<close>: \<^verbatim>\<open>open(file_path, 'rb')\<close> raises \<^verbatim>\<open>IsADirectoryError\<close> for a
  directory and \<^verbatim>\<open>FileNotFoundError\<close> when nothing is at the path.
\<close>

definition calculate_file_hash :: "host \<Rightarrow> filesystem \<Rightarrow> string \<Rightarrow> error + string" where
  "calculate_file_hash h fs file_path_arg =
     (case fs file_path_arg of
        None \<Rightarrow> Inl (if is_dir h file_path_arg then IsADirectoryError else FileNotFoundError)
      | Some content \<Rightarrow> Inr (hexdigest (read_blocks sha256_new content)))"

text \<open>
  \<^verbatim>\<open>create_sample_pdf\<close>: FPDF writes the sample document to \<open>filename\<close>, and the name is
  returned; when \<^verbatim>\<open>pdf.output(filename)\<close> cannot open the file for writing, its error
  goes to the caller and no file is written.
\<close>

definition create_sample_pdf ::
  "host \<Rightarrow> filesystem \<Rightarrow> string \<Rightarrow> error + (string \<times> filesystem)" where
  "create_sample_pdf h fs filename =
     (case output_error h filename of
        Some e \<Rightarrow> Inl e
      | None \<Rightarrow> Inr (filename, fs(filename \<mapsto> fpdf_bytes h)))"

subsection \<open>The database\<close>

text \<open>
  A row of the table \<^verbatim>\<open>papers\<close>. The columns declared \<^verbatim>\<open>NOT NULL\<close> (and the primary key)
  are plain values, the others are options with \<open>None\<close> for SQL's NULL.
\<close>

record paper =
  id_col :: int
  title :: string
  authors :: string
  abstract :: "string option"
  publication_date :: "string option"
  category :: "string option"
  file_path :: "string option"
  file_hash :: "string option"
  upload_date :: string
  keywords_col :: "string option"

text \<open>An entry of the FTS5 table \<^verbatim>\<open>papers_fts\<close>, as the triggers write it.\<close>

record fts_entry =
  fts_rowid :: int
  fts_title :: string
  fts_authors :: string
  fts_abstract :: "string option"
  fts_keywords :: "string option"

text \<open>
  \<open>papers_fts\<close> is \<open>None\<close> when the virtual table (and with it the three triggers, created
  in the same \<^verbatim>\<open>try\<close> block) does not exist. Otherwise it holds the entries of the FTS5
  index: what \<^verbatim>\<open>MATCH\<close> finds, each with the text that was indexed. \<open>sqlite_sequence\<close> is
  the largest rowid AUTOINCREMENT has handed out.
\<close>

record db =
  papers :: "paper list"
  papers_fts :: "fts_entry list option"
  sqlite_sequence :: int

text \<open>
  The engine: whether it has the FTS5 module, what an FTS5 query string matches
  (\<open>None\<close> when FTS5 rejects the query string), and \<^verbatim>\<open>strftime('%Y', d)\<close> (\<open>None\<close>, SQL's
  NULL, when \<open>d\<close> is not a date SQLite understands).
\<close>

record engine =
  fts5_available :: bool
  fts5_match :: "string \<Rightarrow> (fts_entry \<Rightarrow> bool) option"
  strftime_Y :: "string \<Rightarrow> string option"

definition create_virtual_table :: "engine \<Rightarrow> error + fts_entry list" where
  "create_virtual_table eng = (if fts5_available eng then Inr [] else Inl OperationalError)"

text \<open>
  \<^verbatim>\<open>_initialize_database\<close> on a new database file: the table is created, then the FTS5
  table and its triggers inside \<^verbatim>\<open>try\<close>; \<^verbatim>\<open>except sqlite3.OperationalError\<close> prints a note
  and goes on.
\<close>

definition initialize_database :: "engine \<Rightarrow> error + db" where
  "initialize_database eng =
     (case create_virtual_table eng of
        Inr ix \<Rightarrow> Inr \<lparr>papers = [], papers_fts = Some ix, sqlite_sequence = 0\<rparr>
      | Inl OperationalError \<Rightarrow> Inr \<lparr>papers = [], papers_fts = None, sqlite_sequence = 0\<rparr>
      | Inl e \<Rightarrow> Inl e)"

subsection \<open>SQL's LIKE\<close>

text \<open>
  SQLite's \<^verbatim>\<open>LIKE\<close> with its defaults (no \<^verbatim>\<open>ESCAPE\<close>, no \<^verbatim>\<open>case_sensitive_like\<close> pragma; the
  program sets neither): \<^verbatim>\<open>%\<close> in the pattern stands for any run of characters, \<^verbatim>\<open>_\<close> for
  any one character, and any other character for itself, upper and lower case ASCII
  letters being equal. SQLite reads the pattern and the text as C strings: each ends at
  its first NUL character (\<open>c_text\<close>).
\<close>

definition lower_ascii :: "char \<Rightarrow> char" where
  "lower_ascii c =
     (case map_of (zip ''ABCDEFGHIJKLMNOPQRSTUVWXYZ'' ''abcdefghijklmnopqrstuvwxyz'') c of
        None \<Rightarrow> c
      | Some l \<Rightarrow> l)"

fun like_match :: "string \<Rightarrow> string \<Rightarrow> bool" where
  "like_match [] [] = True"
| "like_match [] (c # cs) = False"
| "like_match (p # ps) [] = (p = CHR ''%'' \<and> like_match ps [])"
| "like_match (p # ps) (c # cs) =
     (if p = CHR ''%'' then like_match ps (c # cs) \<or> like_match (p # ps) cs
      else (p = CHR ''_'' \<or> lower_ascii p = lower_ascii c) \<and> like_match ps cs)"

definition c_text :: "string \<Rightarrow> string" where
  "c_text s = takeWhile (\<lambda>c. c \<noteq> CHR 0x00) s"

definition sql_like :: "string \<Rightarrow> string \<Rightarrow> bool" where
  "sql_like pat s = like_match (c_text pat) (c_text s)"

text \<open>
  SQL's three truth values are \<open>Some True\<close>, \<open>Some False\<close> and \<open>None\<close> (NULL); a
  \<^verbatim>\<open>WHERE\<close> clause keeps a row only when it is \<open>Some True\<close>.
\<close>

fun sql_or :: "bool option \<Rightarrow> bool option \<Rightarrow> bool option" where
  "sql_or (Some True) _ = Some True"
| "sql_or _ (Some True) = Some True"
| "sql_or (Some False) (Some False) = Some False"
| "sql_or _ _ = None"

fun sql_and :: "bool option \<Rightarrow> bool option \<Rightarrow> bool option" where
  "sql_and (Some False) _ = Some False"
| "sql_and _ (Some False) = Some False"
| "sql_and (Some True) (Some True) = Some True"
| "sql_and _ _ = None"

definition like_col :: "string \<Rightarrow> string option \<Rightarrow> bool option" where
  "like_col pat v = map_option (sql_like pat) v"

definition eq_col :: "string option \<Rightarrow> string \<Rightarrow> bool option" where
  "eq_col v x = map_option (\<lambda>y. y = x) v"

subsection \<open>add_paper\<close>

text \<open>Python's truth test on an optional string: \<^verbatim>\<open>None\<close> and \<^verbatim>\<open>""\<close> are false.\<close>

definition given :: "string option \<Rightarrow> string option" where
  "given v = (case v of None \<Rightarrow> None | Some s \<Rightarrow> if s = [] then None else Some s)"

definition fts_of :: "paper \<Rightarrow> fts_entry" where
  "fts_of p = \<lparr>fts_rowid = id_col p, fts_title = title p, fts_authors = authors p,
               fts_abstract = abstract p, fts_keywords = keywords_col p\<rparr>"

text \<open>
  \<^verbatim>\<open>INSERT INTO papers (...) VALUES (...)\<close>: the two \<^verbatim>\<open>UNIQUE\<close> columns are checked (NULL
  never collides), the row gets the next AUTOINCREMENT id, and the trigger
  \<^verbatim>\<open>papers_ai\<close>, when it exists, adds the row's text to the index. A statement that
  fails changes nothing. The \<open>id_col\<close> of the argument is not read.
\<close>

definition insert_into_papers :: "paper \<Rightarrow> db \<Rightarrow> error + (int \<times> db)" where
  "insert_into_papers row d =
     (if file_path row \<noteq> None \<and> file_path row \<in> set (map file_path (papers d))
        then Inl IntegrityError
      else if file_hash row \<noteq> None \<and> file_hash row \<in> set (map file_hash (papers d))
        then Inl IntegrityError
      else
        (let i = sqlite_sequence d + 1;
             r = row\<lparr>id_col := i\<rparr>
         in Inr (i, \<lparr>papers = papers d @ [r],
                     papers_fts = map_option (\<lambda>ix. ix @ [fts_of r]) (papers_fts d),
                     sqlite_sequence = i\<rparr>)))"

text \<open>\<^verbatim>\<open>SELECT id FROM papers WHERE file_hash = ?\<close>\<close>

definition select_id_by_hash :: "db \<Rightarrow> string \<Rightarrow> int list" where
  "select_id_by_hash d h = map id_col (filter (\<lambda>p. file_hash p = Some h) (papers d))"

text \<open>
  Lines 131 to 144 of \<^verbatim>\<open>add_paper\<close>: the upload date is taken from the clock, the row is
  inserted and \<^verbatim>\<open>lastrowid\<close> is returned.
\<close>

definition store_paper ::
  "host \<Rightarrow> string \<Rightarrow> string \<Rightarrow> string option \<Rightarrow> string option \<Rightarrow> string option \<Rightarrow>
   string option \<Rightarrow> string option \<Rightarrow> string option \<Rightarrow> db \<Rightarrow> filesystem \<Rightarrow>
   (error + int option) \<times> db \<times> filesystem" where
  "store_paper h ttl auth fpath fhash abstr pubdate categ kwds d fs =
     (case insert_into_papers
             \<lparr>id_col = 0, title = ttl, authors = auth, abstract = abstr,
              publication_date = pubdate, category = categ, file_path = fpath,
              file_hash = fhash, upload_date = clock h, keywords_col = kwds\<rparr> d of
        Inl e \<Rightarrow> (Inl e, d, fs)
      | Inr (i, d') \<Rightarrow> (Inr (Some i), d', fs))"

text \<open>
  \<^verbatim>\<open>add_paper(title, authors, file_path, abstract, publication_date, category, keywords,
  create_sample_if_missing)\<close>. The result is the raised error, or \<open>Inr None\<close> for the
  \<^verbatim>\<open>return None\<close> of a duplicate, or \<open>Inr (Some id)\<close>; with it come the database and the
  filesystem after the call.
\<close>

definition add_paper ::
  "host \<Rightarrow> string \<Rightarrow> string \<Rightarrow> string option \<Rightarrow> string option \<Rightarrow> string option \<Rightarrow>
   string option \<Rightarrow> string option \<Rightarrow> bool \<Rightarrow> db \<Rightarrow> filesystem \<Rightarrow>
   (error + int option) \<times> db \<times> filesystem" where
  "add_paper h ttl auth fpath abstr pubdate categ kwds create_sample_if_missing d fs =
     (case given fpath of
        Some p \<Rightarrow>
          (case (if path_exists h fs p then Inr (p, fs)
                 else if create_sample_if_missing then create_sample_pdf h fs p
                 else Inl FileNotFoundError) of
             Inl e \<Rightarrow> (Inl e, d, fs)
           | Inr (p1, fs1) \<Rightarrow>
               (case calculate_file_hash h fs1 p1 of
                  Inl e \<Rightarrow> (Inl e, d, fs1)
                | Inr h256 \<Rightarrow>
                    if select_id_by_hash d h256 \<noteq> [] then (Inr None, d, fs1)
                    else store_paper h ttl auth (Some p1) (Some h256)
                           abstr pubdate categ kwds d fs1))
      | None \<Rightarrow> store_paper h ttl auth None None abstr pubdate categ kwds d fs)"

subsection \<open>clear_test_data\<close>

text \<open>
  \<^verbatim>\<open>DELETE FROM papers WHERE title LIKE 'Deep Learning for%'\<close>, then
  \<^verbatim>\<open>os.remove("sample_paper.pdf")\<close> when that file exists. The trigger \<^verbatim>\<open>papers_ad\<close> runs
  \<^verbatim>\<open>DELETE FROM papers_fts WHERE rowid = old.id\<close> after the row is gone from \<^verbatim>\<open>papers\<close>.
  \<^verbatim>\<open>papers_fts\<close> is an external-content table: to take a row out of its index FTS5 reads
  the row's text from \<^verbatim>\<open>papers\<close>, finds none and takes nothing out. The entries of the
  deleted rows stay in the index.
\<close>

definition clear_test_data :: "db \<Rightarrow> filesystem \<Rightarrow> db \<times> filesystem" where
  "clear_test_data d fs =
     (\<lparr>papers = filter (\<lambda>p. \<not> sql_like ''Deep Learning for%'' (title p)) (papers d),
       papers_fts = papers_fts d,
       sqlite_sequence = sqlite_sequence d\<rparr>,
      if fs ''sample_paper.pdf'' \<noteq> None then fs(''sample_paper.pdf'' := None) else fs)"

subsection \<open>search_papers\<close>

text \<open>
  The statement text that \<^verbatim>\<open>search_papers\<close> builds: one of its three \<^verbatim>\<open>SELECT\<close>s, and the
  \<^verbatim>\<open>AND\<close> conditions appended to it, each with its parameter.
\<close>

datatype source = FtsJoin string | LikeScan string | AllRows

datatype condition = CategoryEq string | AuthorsLike string | YearEq string

text \<open>
  The body of the \<^verbatim>\<open>try\<close> in \<^verbatim>\<open>search_papers\<close> assigns the statement text and the
  parameter list. It executes nothing.
\<close>

definition fts_statement :: "string \<Rightarrow> error + source" where
  "fts_statement q = Inr (FtsJoin q)"

definition base_statement :: "string option \<Rightarrow> error + source" where
  "base_statement query =
     (case given query of
        Some q \<Rightarrow>
          (case fts_statement q of
             Inr s \<Rightarrow> Inr s
           | Inl OperationalError \<Rightarrow> Inr (LikeScan (''%'' @ q @ ''%''))
           | Inl e \<Rightarrow> Inl e)
      | None \<Rightarrow> Inr AllRows)"

definition add_filters ::
  "string option \<Rightarrow> string option \<Rightarrow> string option \<Rightarrow> condition list" where
  "add_filters categ author year =
     (case given categ of Some c \<Rightarrow> [CategoryEq c] | None \<Rightarrow> []) @
     (case given author of Some a \<Rightarrow> [AuthorsLike (''%'' @ a @ ''%'')] | None \<Rightarrow> []) @
     (case given year of Some y \<Rightarrow> [YearEq y] | None \<Rightarrow> [])"

text \<open>
  The value of one appended condition on a row: \<^verbatim>\<open>p.category = ?\<close>, \<^verbatim>\<open>p.authors LIKE ?\<close>
  and \<^verbatim>\<open>strftime("%Y", p.publication_date) = ?\<close> (SQLite reads the double-quoted \<^verbatim>\<open>%Y\<close>
  as a string). A comparison with NULL is NULL.
\<close>

fun condition_value :: "engine \<Rightarrow> paper \<Rightarrow> condition \<Rightarrow> bool option" where
  "condition_value eng p (CategoryEq c) = eq_col (category p) c"
| "condition_value eng p (AuthorsLike pat) = like_col pat (Some (authors p))"
| "condition_value eng p (YearEq y) =
     eq_col (case publication_date p of None \<Rightarrow> None | Some dt \<Rightarrow> strftime_Y eng dt) y"

definition where_value :: "engine \<Rightarrow> bool option \<Rightarrow> condition list \<Rightarrow> paper \<Rightarrow> bool option" where
  "where_value eng base conds p = foldl sql_and base (map (condition_value eng p) conds)"

text \<open>
  \<^verbatim>\<open>cursor.execute(sql, params)\<close>. The join with \<^verbatim>\<open>papers_fts\<close> needs that table: without
  it SQLite raises \<^verbatim>\<open>OperationalError\<close> (no such table), as it does for a query string
  FTS5 cannot parse. The rows come in the order of the table; SQLite promises no order.
\<close>

definition execute :: "engine \<Rightarrow> db \<Rightarrow> source \<Rightarrow> condition list \<Rightarrow> error + paper list" where
  "execute eng d src conds =
     (case src of
        AllRows \<Rightarrow>
          Inr (filter (\<lambda>p. where_value eng (Some True) conds p = Some True) (papers d))
      | LikeScan pat \<Rightarrow>
          Inr (filter
                 (\<lambda>p. where_value eng
                         (sql_or (sql_or (sql_or (like_col pat (Some (title p)))
                                                 (like_col pat (abstract p)))
                                         (like_col pat (Some (authors p))))
                                 (like_col pat (keywords_col p)))
                         conds p = Some True)
                 (papers d))
      | FtsJoin q \<Rightarrow>
          (case papers_fts d of
             None \<Rightarrow> Inl OperationalError
           | Some ix \<Rightarrow>
               (case fts5_match eng q of
                  None \<Rightarrow> Inl OperationalError
                | Some m \<Rightarrow>
                    Inr (concat (map (\<lambda>p. map (\<lambda>f. p)
                           (filter (\<lambda>f. id_col p = fts_rowid f \<and> m f \<and>
                                         where_value eng (Some True) conds p = Some True) ix))
                         (papers d))))))"

text \<open>
  A value of a result dictionary, the selected column names
  (\<^verbatim>\<open>cursor.description\<close>), and \<^verbatim>\<open>dict(zip(columns, row))\<close> as the list of its items.
\<close>

datatype pyval = PyNone | PyInt int | PyStr string

definition opt_text :: "string option \<Rightarrow> pyval" where
  "opt_text v = (case v of None \<Rightarrow> PyNone | Some s \<Rightarrow> PyStr s)"

definition columns :: "string list" where
  "columns = [''id'', ''title'', ''authors'', ''abstract'', ''publication_date'',
              ''category'', ''file_path'', ''upload_date'', ''keywords'']"

definition select_row :: "paper \<Rightarrow> pyval list" where
  "select_row p = [PyInt (id_col p), PyStr (title p), PyStr (authors p), opt_text (abstract p),
                   opt_text (publication_date p), opt_text (category p), opt_text (file_path p),
                   PyStr (upload_date p), opt_text (keywords_col p)]"

definition to_dict :: "paper \<Rightarrow> (string \<times> pyval) list" where
  "to_dict p = zip columns (select_row p)"

definition search_papers ::
  "engine \<Rightarrow> db \<Rightarrow> string option \<Rightarrow> string option \<Rightarrow> string option \<Rightarrow> string option \<Rightarrow>
   error + (string \<times> pyval) list list" where
  "search_papers eng d query categ author year =
     (case base_statement query of
        Inl e \<Rightarrow> Inl e
      | Inr src \<Rightarrow>
          (case execute eng d src (add_filters categ author year) of
             Inl e \<Rightarrow> Inl e
           | Inr rows \<Rightarrow> Inr (map to_dict rows)))"

text \<open>\<^verbatim>\<open>SELECT DISTINCT category FROM papers WHERE category IS NOT NULL\<close>\<close>

definition get_all_categories :: "db \<Rightarrow> string list" where
  "get_all_categories d = remdups (concat (map (\<lambda>p. case category p of None \<Rightarrow> [] | Some c \<Rightarrow> [c]) (papers d)))"

subsection \<open>Reachable databases\<close>

text \<open>
  The databases the public operations produce from a new file. The filesystem and the
  host are whatever they are at each call: other programs may change files in between.
  \<^verbatim>\<open>search_papers\<close>, \<^verbatim>\<open>get_all_categories\<close> and \<^verbatim>\<open>close\<close> write nothing.
\<close>

inductive reachable :: "engine \<Rightarrow> db \<Rightarrow> bool" for eng :: engine where
  reach_init: "initialize_database eng = Inr d \<Longrightarrow> reachable eng d"
| reach_add:
    "reachable eng d \<Longrightarrow>
     add_paper h ttl auth fpath abstr pubdate categ kwds flag d fs = (r, d', fs') \<Longrightarrow>
     reachable eng d'"
| reach_clear:
    "reachable eng d \<Longrightarrow> clear_test_data d fs = (d', fs') \<Longrightarrow> reachable eng d'"

subsection \<open>Notions the properties are stated with\<close>

text \<open>
  \<open>tracks s bs\<close>: the accumulator \<open>s\<close> is what feeding the bytes \<open>bs\<close>, in any
  division into chunks, leaves behind.
\<close>

definition tracks :: "sha256_obj \<Rightarrow> byte list \<Rightarrow> bool" where
  "tracks s bs = (fed s = length bs \<and> absorb H256 bs = (chain s, pending s))"

text \<open>
  \<open>istarts_with q s\<close>: \<open>s\<close> starts with \<open>q\<close>, ASCII letters compared without case.
  \<open>icontains q s\<close>: \<open>q\<close> occurs in \<open>s\<close> as a substring in that sense.
\<close>

definition istarts_with :: "string \<Rightarrow> string \<Rightarrow> bool" where
  "istarts_with q s =
     (length q \<le> length s \<and> map lower_ascii (take (length q) s) = map lower_ascii q)"

definition icontains :: "string \<Rightarrow> string \<Rightarrow> bool" where
  "icontains q s = list_ex (\<lambda>k. istarts_with q (drop k s)) [0..<Suc (length s)]"

definition wildcard_free :: "string \<Rightarrow> bool" where
  "wildcard_free q = (CHR ''%'' \<notin> set q \<and> CHR ''_'' \<notin> set q)"

definition nul_free :: "string \<Rightarrow> bool" where
  "nul_free q = (CHR 0x00 \<notin> set q)"

text \<open>
  The index holds the entry of every stored row, with the row's text, and at most one
  entry for a rowid; ids are distinct, and no id and no rowid of the index exceeds the
  AUTOINCREMENT counter. (Entries of deleted rows may still be there.)
\<close>

definition indexed :: "db \<Rightarrow> bool" where
  "indexed d =
     (distinct (map id_col (papers d)) \<and>
      list_all (\<lambda>p. id_col p \<le> sqlite_sequence d) (papers d) \<and>
      (case papers_fts d of
         None \<Rightarrow> True
       | Some ix \<Rightarrow>
           distinct (map fts_rowid ix) \<and>
           list_all (\<lambda>f. fts_rowid f \<le> sqlite_sequence d) ix \<and>
           list_all (\<lambda>p. fts_of p \<in> set ix) (papers d)))"

text \<open>
  The key-value mapping of a Paper, as a search returns it: under each of the nine keys
  the Paper's value of that name, \<^verbatim>\<open>None\<close> for an absent one.
\<close>

definition paper_record :: "paper \<Rightarrow> (string \<times> pyval) list" where
  "paper_record p =
     [(''id'', PyInt (id_col p)),
      (''title'', PyStr (title p)),
      (''authors'', PyStr (authors p)),
      (''abstract'', case abstract p of None \<Rightarrow> PyNone | Some s \<Rightarrow> PyStr s),
      (''publication_date'', case publication_date p of None \<Rightarrow> PyNone | Some s \<Rightarrow> PyStr s),
      (''category'', case category p of None \<Rightarrow> PyNone | Some s \<Rightarrow> PyStr s),
      (''file_path'', case file_path p of None \<Rightarrow> PyNone | Some s \<Rightarrow> PyStr s),
      (''upload_date'', PyStr (upload_date p)),
      (''keywords'', case keywords_col p of None \<Rightarrow> PyNone | Some s \<Rightarrow> PyStr s)]"

text \<open>
  What \<^verbatim>\<open>search_papers\<close> asks of a row, argument by argument. An argument that Python
  counts as false (\<^verbatim>\<open>None\<close> or the empty string) asks nothing.
\<close>

definition text_ok :: "engine \<Rightarrow> string option \<Rightarrow> paper \<Rightarrow> bool" where
  "text_ok eng query p =
     (case given query of
        None \<Rightarrow> True
      | Some q \<Rightarrow> (case fts5_match eng q of None \<Rightarrow> False | Some m \<Rightarrow> m (fts_of p)))"

definition category_ok :: "string option \<Rightarrow> paper \<Rightarrow> bool" where
  "category_ok categ p =
     (case given categ of None \<Rightarrow> True | Some c \<Rightarrow> category p = Some c)"

definition author_ok :: "string option \<Rightarrow> paper \<Rightarrow> bool" where
  "author_ok author p =
     (case given author of
        None \<Rightarrow> True
      | Some a \<Rightarrow> sql_like (''%'' @ a @ ''%'') (authors p))"

definition year_ok :: "engine \<Rightarrow> string option \<Rightarrow> paper \<Rightarrow> bool" where
  "year_ok eng year p =
     (case given year of
        None \<Rightarrow> True
      | Some y \<Rightarrow>
          (case publication_date p of
             None \<Rightarrow> False
           | Some dt \<Rightarrow> strftime_Y eng dt = Some y))"

text \<open>
  The bytes of the supplied file: the content of the file at the given path, or of the
  sample document when nothing is at the path, the flag is set and the document can be
  written there; nothing when no path is given, or the path names a directory, or no
  file comes to be.
\<close>

definition supplied_content ::
  "host \<Rightarrow> filesystem \<Rightarrow> string option \<Rightarrow> bool \<Rightarrow> byte list option" where
  "supplied_content h fs fpath create_sample_if_missing =
     (case given fpath of
        None \<Rightarrow> None
      | Some p \<Rightarrow>
          (case fs p of
             Some content \<Rightarrow> Some content
           | None \<Rightarrow>
               if \<not> is_dir h p \<and> create_sample_if_missing \<and> output_error h p = None
               then Some (fpdf_bytes h) else None))"

subsection \<open>Sample data for the examples\<close>

text \<open>
  An engine to run the examples on. Its stand-in for FTS5 accepts every query without a
  double quote and matches it when it occurs, without regard to case, in the title; its
  \<^verbatim>\<open>strftime\<close> reads the year off a ten-character date.
\<close>

definition sample_engine :: "bool \<Rightarrow> engine" where
  "sample_engine has_fts5 =
     \<lparr>fts5_available = has_fts5,
      fts5_match = (\<lambda>q. if CHR 0x22 \<in> set q then None
                          else Some (\<lambda>f. icontains q (fts_title f))),
      strftime_Y = (\<lambda>s. if length s = 10 then Some (take 4 s) else None)\<rparr>"

text \<open>
  A host with one directory, \<^verbatim>\<open>docs\<close>: a file can be written in the current directory
  and in \<^verbatim>\<open>docs\<close>, and nowhere else.
\<close>

definition sample_host :: host where
  "sample_host =
     \<lparr>fpdf_bytes = [0x25, 0x50, 0x44, 0x46], clock = ''2024-01-01 00:00:00'',
      is_dir = (\<lambda>p. p = ''docs''),
      output_error = (\<lambda>name. if CHR ''/'' \<in> set name \<and> take 5 name \<noteq> ''docs/''
                               then Some FileNotFoundError else None)\<rparr>"

definition paper_a :: paper where
  "paper_a = \<lparr>id_col = 1, title = ''Deep Learning for X'', authors = ''John Smith, Jane Doe'',
              abstract = Some ''Deep learning techniques'', publication_date = Some ''2023-05-15'',
              category = Some ''AI'', file_path = None, file_hash = None,
              upload_date = ''2024-01-01 00:00:00'', keywords_col = Some ''nlp''\<rparr>"

definition paper_b :: paper where
  "paper_b = \<lparr>id_col = 2, title = ''Quantum Mechanics'', authors = ''John Wings'',
              abstract = None, publication_date = Some ''2021-01-01'',
              category = Some ''Physics'', file_path = None, file_hash = None,
              upload_date = ''2024-01-01 00:00:00'', keywords_col = None\<rparr>"

text \<open>The database after \<open>paper_a\<close> and \<open>paper_b\<close> were added, with and without FTS5.\<close>

definition sample_db :: "bool \<Rightarrow> db" where
  "sample_db has_fts5 =
     \<lparr>papers = [paper_a, paper_b],
      papers_fts = (if has_fts5 then Some [fts_of paper_a, fts_of paper_b] else None),
      sqlite_sequence = 2\<rparr>"

text \<open>
  The scenario with files: the file \<^verbatim>\<open>a.pdf\<close> and its copy \<^verbatim>\<open>b.pdf\<close> hold the three
  bytes \<^verbatim>\<open>abc\<close>; \<open>file_db\<close> is the database after \<^verbatim>\<open>a.pdf\<close> was added to a new one.
\<close>

definition abc_bytes :: "byte list" where
  "abc_bytes = [0x61, 0x62, 0x63]"

definition sample_fs :: filesystem where
  "sample_fs = [''a.pdf'' \<mapsto> abc_bytes, ''b.pdf'' \<mapsto> abc_bytes]"

definition new_db :: db where
  "new_db = \<lparr>papers = [], papers_fts = Some [], sqlite_sequence = 0\<rparr>"

definition paper_f :: paper where
  "paper_f = \<lparr>id_col = 1, title = ''Deep Learning for X'', authors = ''John Smith'',
              abstract = None, publication_date = None, category = Some ''Machine Learning'',
              file_path = Some ''a.pdf'', file_hash = Some (sha256_hex abc_bytes),
              upload_date = ''2024-01-01 00:00:00'', keywords_col = None\<rparr>"

definition file_db :: db where
  "file_db = \<lparr>papers = [paper_f], papers_fts = Some [fts_of paper_f], sqlite_sequence = 1\<rparr>"

section \<open>Properties\<close>

subsection \<open>The hash of a file\<close>

lemma absorb_append:
  "absorb hs (xs @ ys) = (case absorb hs xs of (hs', rest) \<Rightarrow> absorb hs' (rest @ ys))"
proof (induction hs xs rule: absorb.induct)
  case (1 hs bs)
  show ?case
  proof (cases "length bs < 64")
    case True
    then show ?thesis by (simp add: absorb.simps [of hs bs])
  next
    case False
    then have "absorb hs (bs @ ys) = absorb (compress hs (take 64 bs)) (drop 64 bs @ ys)"
      by (simp add: absorb.simps [of hs "bs @ ys"])
    also have "\<dots> = (case absorb (compress hs (take 64 bs)) (drop 64 bs) of
                       (hs', rest) \<Rightarrow> absorb hs' (rest @ ys))"
      using "1.IH" False by simp
    also have "absorb (compress hs (take 64 bs)) (drop 64 bs) = absorb hs bs"
      using False by (simp add: absorb.simps [of hs bs])
    finally show ?thesis .
  qed
qed

lemma tracks_new: "tracks sha256_new []"
  by (simp add: tracks_def sha256_new_def absorb.simps [of H256 "[]"])

lemma tracks_update:
  assumes "tracks s bs"
  shows "tracks (update s data) (bs @ data)"
proof -
  from assms have a: "absorb H256 bs = (chain s, pending s)" and n: "fed s = length bs"
    by (simp_all add: tracks_def)
  have "absorb H256 (bs @ data) = absorb (chain s) (pending s @ data)"
    using absorb_append [of H256 bs data] a by simp
  with n show ?thesis
    by (simp add: tracks_def update_def split: prod.splits)
qed

lemma tracks_foldl: "tracks s bs \<Longrightarrow> tracks (foldl update s chunks) (bs @ concat chunks)"
proof (induction chunks arbitrary: s bs)
  case Nil
  then show ?case by simp
next
  case (Cons c cs)
  from Cons.IH [OF tracks_update [OF Cons.prems, of c]] show ?case by simp
qed

lemma tracks_read_blocks: "tracks s bs \<Longrightarrow> tracks (read_blocks s f) (bs @ f)"
proof (induction s f arbitrary: bs rule: read_blocks.induct)
  case (1 s f)
  show ?case
  proof (cases "take 4096 f = []")
    case True
    then have "f = []" by simp
    with "1.prems" show ?thesis by (simp add: read_blocks.simps [of s "[]"])
  next
    case False
    from "1.IH" [OF refl False tracks_update [OF "1.prems", of "take 4096 f"]]
    have "tracks (read_blocks (update s (take 4096 f)) (drop 4096 f)) (bs @ f)"
      by simp
    with False show ?thesis by (simp add: read_blocks.simps [of s f] Let_def)
  qed
qed

lemma tracks_hexdigest:
  assumes "tracks s bs"
  shows "hexdigest s = sha256_hex bs"
proof -
  from assms have a: "absorb H256 bs = (chain s, pending s)" and n: "fed s = length bs"
    by (simp_all add: tracks_def)
  have "absorb H256 (bs @ padding (length bs)) = absorb (chain s) (pending s @ padding (fed s))"
    using absorb_append [of H256 bs "padding (length bs)"] a n by simp
  then show ?thesis
    by (simp add: hexdigest_def sha256_hex_def)
qed

lemma calculate_file_hash_Some:
  "fs p = Some content \<Longrightarrow> calculate_file_hash h fs p = Inr (sha256_hex content)"
  using tracks_hexdigest [OF tracks_read_blocks [OF tracks_new, of content]]
  by (simp add: calculate_file_hash_def)

text \<open>
  The model of the digest is SHA-256: it computes the digests of the standard's
  one-block test message \<^verbatim>\<open>abc\<close> and of the empty message.
\<close>

lemma sha256_hex_abc:
  "sha256_hex [0x61, 0x62, 0x63] =
     ''ba7816bf8f01cfea414140de5dae2223b00361a396177a9cb410ff61f20015ad''"
  by code_simp

lemma sha256_hex_empty:
  "sha256_hex [] = ''e3b0c44298fc1c149afbf4c8996fb92427ae41e4649b934ca495991b7852b855''"
  by code_simp

lemma sha256_hex_empty_neq_abc: "sha256_hex [] \<noteq> sha256_hex abc_bytes"
  by (simp add: abc_bytes_def sha256_hex_abc sha256_hex_empty)

text \<open>
  C6. \<^verbatim>\<open>_calculate_file_hash\<close>, which feeds the file to the accumulator in reads of 4096
  bytes, returns the lowercase hexadecimal SHA-256 digest of the whole content computed
  in one pass; and feeding the accumulator any list of chunks gives the one-pass digest
  of their concatenation, so that the fingerprint depends on the content only.
\<close>

theorem calculate_file_hash_is_sha256:
  "calculate_file_hash h (fs(p \<mapsto> content)) p = Inr (sha256_hex content) \<and>
   hexdigest (foldl update sha256_new chunks) = sha256_hex (concat chunks)"
  using tracks_hexdigest [OF tracks_foldl [OF tracks_new, of chunks]]
  by (simp add: calculate_file_hash_Some)


subsection \<open>LIKE patterns without wildcards\<close>

lemma like_match_percent_Cons:
  "like_match (CHR ''%'' # r) s = (\<exists>k\<le>length s. like_match r (drop k s))"
proof (induction s)
  case Nil
  then show ?case by simp
next
  case (Cons c cs)
  have "(\<exists>k\<le>length (c # cs). like_match r (drop k (c # cs))) =
        (like_match r (c # cs) \<or> (\<exists>k\<le>length cs. like_match r (drop k cs)))"
  proof
    assume "\<exists>k\<le>length (c # cs). like_match r (drop k (c # cs))"
    then obtain k where k: "k \<le> length (c # cs)" "like_match r (drop k (c # cs))" by blast
    show "like_match r (c # cs) \<or> (\<exists>k\<le>length cs. like_match r (drop k cs))"
    proof (cases k)
      case 0
      with k show ?thesis by simp
    next
      case (Suc j)
      with k have "j \<le> length cs" "like_match r (drop j cs)" by simp_all
      then show ?thesis by blast
    qed
  next
    assume "like_match r (c # cs) \<or> (\<exists>k\<le>length cs. like_match r (drop k cs))"
    then show "\<exists>k\<le>length (c # cs). like_match r (drop k (c # cs))"
    proof
      assume "like_match r (c # cs)"
      then have "0 \<le> length (c # cs) \<and> like_match r (drop 0 (c # cs))" by simp
      then show ?thesis by blast
    next
      assume "\<exists>k\<le>length cs. like_match r (drop k cs)"
      then obtain j where "j \<le> length cs" "like_match r (drop j cs)" by blast
      then have "Suc j \<le> length (c # cs) \<and> like_match r (drop (Suc j) (c # cs))" by simp
      then show ?thesis by blast
    qed
  qed
  with Cons show ?case by simp
qed

lemma like_match_literal:
  "wildcard_free q \<Longrightarrow>
   like_match (q @ r) s =
     (length q \<le> length s \<and> map lower_ascii (take (length q) s) = map lower_ascii q \<and>
      like_match r (drop (length q) s))"
proof (induction q arbitrary: s)
  case Nil
  then show ?case by simp
next
  case (Cons a q)
  then have wf: "wildcard_free q" and a: "a \<noteq> CHR ''%''" "a \<noteq> CHR ''_''"
    by (auto simp: wildcard_free_def)
  show ?case
  proof (cases s)
    case Nil
    with a show ?thesis by simp
  next
    case (Cons c cs)
    with a Cons.IH [OF wf, of cs] show ?thesis by auto
  qed
qed

lemma like_match_percent: "like_match ''%'' s"
  using like_match_percent_Cons [of "[]" s] by (auto intro: exI [of _ "length s"])

lemma like_match_prefix:
  "wildcard_free q \<Longrightarrow> like_match (q @ ''%'') s = istarts_with q s"
  by (simp add: like_match_literal like_match_percent istarts_with_def)


subsection \<open>LIKE and the NUL character\<close>

lemma c_text_nul_free: "nul_free q \<Longrightarrow> c_text q = q"
  by (auto simp: c_text_def nul_free_def takeWhile_eq_all_conv)

lemma c_text_Nil [simp]: "c_text [] = []"
  by (simp add: c_text_def)

lemma c_text_Cons: "c_text (c # cs) = (if c = CHR 0x00 then [] else c # c_text cs)"
  by (simp add: c_text_def)

lemma lower_ascii_NUL: "lower_ascii c = CHR 0x00 \<longleftrightarrow> c = CHR 0x00"
proof (cases "map_of (zip ''ABCDEFGHIJKLMNOPQRSTUVWXYZ'' ''abcdefghijklmnopqrstuvwxyz'') c")
  case None
  then show ?thesis by (simp add: lower_ascii_def)
next
  case (Some l)
  then have "(c, l) \<in> set (zip ''ABCDEFGHIJKLMNOPQRSTUVWXYZ'' ''abcdefghijklmnopqrstuvwxyz'')"
    by (rule map_of_SomeD)
  then have "l \<noteq> CHR 0x00 \<and> c \<noteq> CHR 0x00" by auto
  with Some show ?thesis by (simp add: lower_ascii_def)
qed

lemma istarts_with_Nil [simp]: "istarts_with [] s"
  by (simp add: istarts_with_def)

lemma istarts_with_Cons_Nil [simp]: "\<not> istarts_with (a # q) []"
  by (simp add: istarts_with_def)

lemma istarts_with_Cons_Cons:
  "istarts_with (a # q) (c # cs) = (lower_ascii c = lower_ascii a \<and> istarts_with q cs)"
  by (auto simp: istarts_with_def)

lemma istarts_with_c_text: "nul_free q \<Longrightarrow> istarts_with q (c_text s) = istarts_with q s"
proof (induction q arbitrary: s)
  case Nil
  then show ?case by simp
next
  case (Cons a q)
  then have a: "a \<noteq> CHR 0x00" and q: "nul_free q" by (auto simp: nul_free_def)
  show ?case
  proof (cases s)
    case Nil
    then show ?thesis by simp
  next
    case (Cons c cs)
    show ?thesis
    proof (cases "c = CHR 0x00")
      case True
      with a lower_ascii_NUL [of a] have "lower_ascii c \<noteq> lower_ascii a"
        using lower_ascii_NUL [of c] by auto
      with True Cons show ?thesis by (simp add: c_text_Cons istarts_with_Cons_Cons)
    next
      case False
      with Cons Cons.IH [OF q, of cs] show ?thesis
        by (simp add: c_text_Cons istarts_with_Cons_Cons)
    qed
  qed
qed

lemma sql_like_prefix:
  assumes "wildcard_free q" and "nul_free q"
  shows "sql_like (q @ ''%'') s = istarts_with q s"
proof -
  from assms(2) have "nul_free (q @ ''%'')" by (simp add: nul_free_def)
  then have "sql_like (q @ ''%'') s = like_match (q @ ''%'') (c_text s)"
    by (simp add: sql_like_def c_text_nul_free)
  with assms show ?thesis by (simp add: like_match_prefix istarts_with_c_text)
qed


lemma wildcard_free_prefix: "wildcard_free ''Deep Learning for''"
  by (simp add: wildcard_free_def)

lemma nul_free_prefix: "nul_free ''Deep Learning for''"
  by (simp add: nul_free_def)

lemma like_deep: "sql_like ''Deep Learning for%'' s = istarts_with ''Deep Learning for'' s"
  using sql_like_prefix [OF wildcard_free_prefix nul_free_prefix, of s] by simp

text \<open>
  C8, as the code has it. \<^verbatim>\<open>clear_test_data\<close> takes no argument: the prefix is the
  constant \<^verbatim>\<open>Deep Learning for\<close>. It deletes exactly the rows whose title starts with
  that prefix when ASCII letters are compared without regard to case; every other row
  stays, unchanged and in place; and the file \<^verbatim>\<open>sample_paper.pdf\<close> is gone afterwards,
  every other file untouched.
\<close>

theorem clear_test_data_deletes:
  "papers (fst (clear_test_data d fs)) =
     filter (\<lambda>p. \<not> istarts_with ''Deep Learning for'' (title p)) (papers d) \<and>
   snd (clear_test_data d fs) = fs(''sample_paper.pdf'' := None)"
  by (auto simp: clear_test_data_def like_deep Let_def)


text \<open>
  The title \<^verbatim>\<open>deep learning for cats\<close> does not start with \<^verbatim>\<open>Deep Learning for\<close>, and
  the row is deleted all the same: \<^verbatim>\<open>LIKE\<close> does not tell the case of ASCII letters apart.
\<close>

theorem clear_test_data_case_counterexample:
  "\<not> prefix ''Deep Learning for'' ''deep learning for cats'' \<and>
   papers (fst (clear_test_data
     \<lparr>papers = [\<lparr>id_col = 1, title = ''deep learning for cats'', authors = ''Ann'',
                  abstract = None, publication_date = None, category = None,
                  file_path = None, file_hash = None, upload_date = ''2024-01-01 00:00:00'',
                  keywords_col = None\<rparr>],
      papers_fts = None, sqlite_sequence = 1\<rparr> Map.empty)) = []"
  by (simp add: clear_test_data_def sql_like_def c_text_def lower_ascii_def)


subsection \<open>Searching\<close>

lemma base_statement_eq:
  "base_statement query = Inr (case given query of None \<Rightarrow> AllRows | Some q \<Rightarrow> FtsJoin q)"
  by (simp add: base_statement_def fts_statement_def split: option.splits)

lemma sql_and_True: "sql_and b v = Some True \<longleftrightarrow> b = Some True \<and> v = Some True"
  by (cases "(b, v)" rule: sql_and.cases) simp_all

lemma foldl_sql_and_True:
  "foldl sql_and b vs = Some True \<longleftrightarrow> b = Some True \<and> list_all (\<lambda>v. v = Some True) vs"
  by (induction vs arbitrary: b) (auto simp: sql_and_True)

lemma where_value_filters:
  "where_value eng (Some True) (add_filters categ author year) p = Some True \<longleftrightarrow>
     category_ok categ p \<and> author_ok author p \<and> year_ok eng year p"
  by (auto simp: where_value_def add_filters_def foldl_sql_and_True category_ok_def
        author_ok_def year_ok_def eq_col_def like_col_def split: option.splits)

lemma filter_same_key:
  "distinct (map f xs) \<Longrightarrow> x \<in> set xs \<Longrightarrow> filter (\<lambda>y. f x = f y) xs = [x]"
proof (induction xs)
  case Nil
  then show ?case by simp
next
  case (Cons a xs)
  show ?case
  proof (cases "x = a")
    case True
    with Cons.prems have "\<forall>y\<in>set xs. f a \<noteq> f y" by auto
    then have "filter (\<lambda>y. f a = f y) xs = []" by (simp add: filter_empty_conv)
    with True show ?thesis by simp
  next
    case False
    with Cons.prems have "x \<in> set xs" "f x \<noteq> f a" by (auto simp: image_iff)
    with Cons show ?thesis by simp
  qed
qed

lemma concat_map_if: "concat (map (\<lambda>p. if Q p then [p] else []) ps) = filter Q ps"
  by (induction ps) simp_all

lemma fts_join_filter:
  assumes "distinct (map fts_rowid ix)" and "list_all (\<lambda>p. fts_of p \<in> set ix) ps"
  shows "concat (map (\<lambda>p. map (\<lambda>f. p)
           (filter (\<lambda>f. id_col p = fts_rowid f \<and> m f \<and> W p) ix)) ps) =
         filter (\<lambda>p. m (fts_of p) \<and> W p) ps"
proof -
  have one: "map (\<lambda>f. p) (filter (\<lambda>f. id_col p = fts_rowid f \<and> m f \<and> W p) ix) =
             (if m (fts_of p) \<and> W p then [p] else [])" if "p \<in> set ps" for p
  proof -
    from that assms(2) have mem: "fts_of p \<in> set ix" by (simp add: list_all_iff)
    have key: "id_col p = fts_rowid (fts_of p)" by (simp add: fts_of_def)
    have "filter (\<lambda>f. id_col p = fts_rowid f \<and> m f \<and> W p) ix =
          filter (\<lambda>f. m f \<and> W p) (filter (\<lambda>f. fts_rowid (fts_of p) = fts_rowid f) ix)"
      unfolding key by (induction ix) auto
    also have "filter (\<lambda>f. fts_rowid (fts_of p) = fts_rowid f) ix = [fts_of p]"
      using filter_same_key [OF assms(1) mem] .
    finally show ?thesis by simp
  qed
  have "concat (map (\<lambda>p. map (\<lambda>f. p)
           (filter (\<lambda>f. id_col p = fts_rowid f \<and> m f \<and> W p) ix)) ps) =
        concat (map (\<lambda>p. if m (fts_of p) \<and> W p then [p] else []) ps)"
    using one by (simp cong: map_cong)
  then show ?thesis by (simp add: concat_map_if)
qed

subsection \<open>The index holds every stored row\<close>

lemma indexed_initialize: "initialize_database eng = Inr d \<Longrightarrow> indexed d"
  by (auto simp: initialize_database_def create_virtual_table_def indexed_def
           split: if_splits)

lemma indexed_insert:
  assumes "indexed d" and "insert_into_papers row d = Inr (i, d')"
  shows "indexed d'"
proof -
  let ?r = "row\<lparr>id_col := sqlite_sequence d + 1\<rparr>"
  from assms(2) have d': "d' = \<lparr>papers = papers d @ [?r],
        papers_fts = map_option (\<lambda>ix. ix @ [fts_of ?r]) (papers_fts d),
        sqlite_sequence = sqlite_sequence d + 1\<rparr>"
    by (auto simp: insert_into_papers_def Let_def split: if_splits)
  from assms(1) have le: "\<forall>p\<in>set (papers d). id_col p \<le> sqlite_sequence d"
    and dist: "distinct (map id_col (papers d))"
    by (simp_all add: indexed_def list_all_iff)
  from le have fresh: "sqlite_sequence d + 1 \<notin> id_col ` set (papers d)" by force
  from le have le': "\<forall>p\<in>set (papers d). id_col p \<le> sqlite_sequence d + 1" by force
  show ?thesis
  proof (cases "papers_fts d")
    case None
    with dist fresh le' show ?thesis by (simp add: d' indexed_def list_all_iff)
  next
    case (Some ix)
    with assms(1) have ixd: "distinct (map fts_rowid ix)"
      and ixle: "\<forall>f\<in>set ix. fts_rowid f \<le> sqlite_sequence d"
      and mem: "\<forall>p\<in>set (papers d). fts_of p \<in> set ix"
      by (simp_all add: indexed_def list_all_iff)
    from ixle have ixfresh: "sqlite_sequence d + 1 \<notin> fts_rowid ` set ix" by force
    from ixle have ixle': "\<forall>f\<in>set ix. fts_rowid f \<le> sqlite_sequence d + 1" by force
    have rid: "fts_rowid (fts_of ?r) = sqlite_sequence d + 1" by (simp add: fts_of_def)
    from Some dist fresh le' ixd ixfresh ixle' mem rid show ?thesis
      by (simp add: d' indexed_def list_all_iff)
  qed
qed

lemma indexed_add_paper:
  assumes "indexed d"
      and "add_paper h ttl auth fpath abstr pubdate categ kwds flag d fs = (r, d', fs')"
  shows "indexed d'"
  using assms
  by (auto simp: add_paper_def store_paper_def create_sample_pdf_def
           split: option.splits sum.splits if_splits prod.splits
           dest: indexed_insert)

lemma indexed_clear:
  assumes "indexed d"
  shows "indexed (fst (clear_test_data d fs))"
proof -
  from assms have "list_all (\<lambda>p. id_col p \<le> sqlite_sequence d)
                     (filter (\<lambda>p. \<not> sql_like ''Deep Learning for%'' (title p)) (papers d))"
    by (simp add: indexed_def list_all_iff)
  with assms show ?thesis
    by (auto simp: clear_test_data_def indexed_def distinct_map_filter list_all_iff
             split: option.splits)
qed

lemma reachable_indexed: "reachable eng d \<Longrightarrow> indexed d"
proof (induction rule: reachable.induct)
  case (reach_init d)
  then show ?case by (rule indexed_initialize)
next
  case (reach_add d h ttl auth fpath abstr pubdate categ kwds flag fs r d' fs')
  then show ?case by (blast intro: indexed_add_paper)
next
  case (reach_clear d fs d' fs')
  from indexed_clear [OF reach_clear.IH, of fs] reach_clear.hyps(2) show ?case by simp
qed

subsection \<open>search_papers\<close>

lemma to_dict_record: "to_dict p = paper_record p"
  by (simp add: to_dict_def columns_def select_row_def opt_text_def paper_record_def)

lemma to_dict_eq: "to_dict = paper_record"
  by (rule ext) (rule to_dict_record)

lemma search_papers_all_rows:
  assumes "given query = None"
  shows "search_papers eng d query categ author year =
         Inr (map paper_record (filter (\<lambda>p. category_ok categ p \<and> author_ok author p \<and>
                                         year_ok eng year p) (papers d)))"
  using assms
  by (simp add: search_papers_def base_statement_eq execute_def where_value_filters
        to_dict_record)

lemma search_papers_fts_join:
  assumes "indexed d" and "given query = Some q" and "papers_fts d = Some ix"
      and "fts5_match eng q = Some m"
  shows "search_papers eng d query categ author year =
         Inr (map paper_record (filter (\<lambda>p. m (fts_of p) \<and> category_ok categ p \<and>
                                         author_ok author p \<and> year_ok eng year p) (papers d)))"
proof -
  from assms(1,3) have ixd: "distinct (map fts_rowid ix)"
    and mem: "list_all (\<lambda>p. fts_of p \<in> set ix) (papers d)"
    by (simp_all add: indexed_def)
  show ?thesis
    using assms(2-4) fts_join_filter [OF ixd mem, of m
        "\<lambda>p. where_value eng (Some True) (add_filters categ author year) p = Some True"]
    by (simp add: search_papers_def base_statement_eq execute_def where_value_filters
          to_dict_eq)
qed

lemma search_papers_no_table:
  assumes "given query = Some q" and "papers_fts d = None"
  shows "search_papers eng d query categ author year = Inl OperationalError"
  using assms by (simp add: search_papers_def base_statement_eq execute_def)

lemma execute_rows:
  assumes "execute eng d src conds = Inr rows"
  shows "set rows \<subseteq> set (papers d)"
  using assms
  by (auto simp: execute_def split: source.splits option.splits)

lemma search_papers_rows:
  assumes "search_papers eng d query categ author year = Inr rs"
  shows "\<exists>rows. rs = map paper_record rows \<and> set rows \<subseteq> set (papers d)"
proof -
  from assms obtain src rows where "execute eng d src (add_filters categ author year) = Inr rows"
    and "rs = map to_dict rows"
    by (auto simp: search_papers_def split: sum.splits)
  with execute_rows [of eng d src "add_filters categ author year" rows] show ?thesis
    by (auto simp: to_dict_eq)
qed

text \<open>The stored hashes have no part in a search.\<close>

lemma condition_value_file_hash:
  "condition_value eng (p\<lparr>file_hash := x\<rparr>) = condition_value eng p"
proof
  fix c
  show "condition_value eng (p\<lparr>file_hash := x\<rparr>) c = condition_value eng p c"
    by (cases c) simp_all
qed

lemma where_value_file_hash:
  "where_value eng b conds (p\<lparr>file_hash := x\<rparr>) = where_value eng b conds p"
  by (simp add: where_value_def condition_value_file_hash)

lemma execute_file_hash:
  "execute eng (d\<lparr>papers := map (\<lambda>p. p\<lparr>file_hash := x p\<rparr>) (papers d)\<rparr>) src conds =
     (case execute eng d src conds of
        Inl e \<Rightarrow> Inl e
      | Inr rows \<Rightarrow> Inr (map (\<lambda>p. p\<lparr>file_hash := x p\<rparr>) rows))"
proof (cases src)
  case (FtsJoin q)
  show ?thesis
  proof (cases "papers_fts d")
    case None
    with FtsJoin show ?thesis by (simp add: execute_def)
  next
    case (Some ix)
    show ?thesis
    proof (cases "fts5_match eng q")
      case None
      with FtsJoin Some show ?thesis by (simp add: execute_def)
    next
      case (Some m)
      with FtsJoin \<open>papers_fts d = Some ix\<close> show ?thesis
        by (simp add: execute_def where_value_file_hash map_concat o_def)
    qed
  qed
next
  case (LikeScan pat)
  then show ?thesis
    by (simp add: execute_def where_value_file_hash filter_map o_def)
next
  case AllRows
  then show ?thesis
    by (simp add: execute_def where_value_file_hash filter_map o_def)
qed

lemma paper_record_file_hash: "paper_record (p\<lparr>file_hash := x\<rparr>) = paper_record p"
  by (simp add: paper_record_def)

lemma search_papers_file_hash:
  "search_papers eng (d\<lparr>papers := map (\<lambda>p. p\<lparr>file_hash := x p\<rparr>) (papers d)\<rparr>)
     query categ author year = search_papers eng d query categ author year"
  by (simp add: search_papers_def execute_file_hash to_dict_eq paper_record_file_hash o_def
           split: sum.splits)

text \<open>
  C5. With no query and no filter \<^verbatim>\<open>search_papers\<close> returns every stored Paper, whatever
  the database holds and whether or not it has an index: one key-value mapping for each
  row, in the order of the table, holding the row's own values. The empty string counts
  as no argument.
\<close>

theorem search_papers_no_arguments:
  "search_papers eng d None None None None = Inr (map paper_record (papers d)) \<and>
   search_papers eng d (Some []) (Some []) (Some []) (Some []) = Inr (map paper_record (papers d))"
  by (simp add: search_papers_all_rows given_def category_ok_def author_ok_def year_ok_def)

text \<open>
  C10. Every mapping that \<^verbatim>\<open>search_papers\<close> returns is that of a stored Paper: it has
  exactly the nine keys \<^verbatim>\<open>id\<close>, \<^verbatim>\<open>title\<close>, \<^verbatim>\<open>authors\<close>, \<^verbatim>\<open>abstract\<close>,
  \<^verbatim>\<open>publication_date\<close>, \<^verbatim>\<open>category\<close>, \<^verbatim>\<open>file_path\<close>, \<^verbatim>\<open>upload_date\<close> and
  \<^verbatim>\<open>keywords\<close>, each with that Paper's value of the column. There is no key
  \<^verbatim>\<open>file_hash\<close>, and the stored hashes are never included: whatever hashes the rows
  hold, the search returns the same list.
\<close>

theorem search_papers_keys:
  assumes "search_papers eng d query categ author year = Inr rs" and "r \<in> set rs"
  shows "(\<exists>p\<in>set (papers d).
            r = [(''id'', PyInt (id_col p)),
                 (''title'', PyStr (title p)),
                 (''authors'', PyStr (authors p)),
                 (''abstract'', case abstract p of None \<Rightarrow> PyNone | Some s \<Rightarrow> PyStr s),
                 (''publication_date'',
                    case publication_date p of None \<Rightarrow> PyNone | Some s \<Rightarrow> PyStr s),
                 (''category'', case category p of None \<Rightarrow> PyNone | Some s \<Rightarrow> PyStr s),
                 (''file_path'', case file_path p of None \<Rightarrow> PyNone | Some s \<Rightarrow> PyStr s),
                 (''upload_date'', PyStr (upload_date p)),
                 (''keywords'', case keywords_col p of None \<Rightarrow> PyNone | Some s \<Rightarrow> PyStr s)]) \<and>
         map fst r =
           [''id'', ''title'', ''authors'', ''abstract'', ''publication_date'', ''category'',
            ''file_path'', ''upload_date'', ''keywords''] \<and>
         ''file_hash'' \<notin> fst ` set r \<and>
         search_papers eng (d\<lparr>papers := map (\<lambda>p. p\<lparr>file_hash := x p\<rparr>) (papers d)\<rparr>)
           query categ author year = Inr rs"
proof -
  from search_papers_rows [OF assms(1)]
  obtain rows where rs: "rs = map paper_record rows" and sub: "set rows \<subseteq> set (papers d)"
    by blast
  from assms(2) rs obtain p where "p \<in> set rows" and r: "r = paper_record p"
    by (auto simp: image_iff)
  with sub have p: "p \<in> set (papers d)" by blast
  have keys: "map fst r =
           [''id'', ''title'', ''authors'', ''abstract'', ''publication_date'', ''category'',
            ''file_path'', ''upload_date'', ''keywords'']"
    by (simp add: r paper_record_def)
  have "fst ` set r = set (map fst r)" by simp
  then have nohash: "''file_hash'' \<notin> fst ` set r" unfolding keys by simp
  from p r have "\<exists>p\<in>set (papers d). r = paper_record p" by blast
  with keys nohash assms(1) show ?thesis
    unfolding paper_record_def by (simp add: search_papers_file_hash)
qed

subsection \<open>The sample database\<close>

lemma initialize_sample:
  "initialize_database (sample_engine b) =
     Inr \<lparr>papers = [], papers_fts = (if b then Some [] else None), sqlite_sequence = 0\<rparr>"
  by (simp add: initialize_database_def create_virtual_table_def sample_engine_def)

lemma add_paper_a:
  "add_paper sample_host ''Deep Learning for X'' ''John Smith, Jane Doe'' None
     (Some ''Deep learning techniques'') (Some ''2023-05-15'') (Some ''AI'') (Some ''nlp'') False
     \<lparr>papers = [], papers_fts = (if b then Some [] else None), sqlite_sequence = 0\<rparr> fs =
   (Inr (Some 1),
    \<lparr>papers = [paper_a], papers_fts = (if b then Some [fts_of paper_a] else None),
     sqlite_sequence = 1\<rparr>, fs)"
  by (simp add: add_paper_def given_def store_paper_def insert_into_papers_def paper_a_def
        sample_host_def Let_def)

lemma add_paper_b:
  "add_paper sample_host ''Quantum Mechanics'' ''John Wings'' None
     None (Some ''2021-01-01'') (Some ''Physics'') None False
     \<lparr>papers = [paper_a], papers_fts = (if b then Some [fts_of paper_a] else None),
      sqlite_sequence = 1\<rparr> fs =
   (Inr (Some 2), sample_db b, fs)"
  by (simp add: add_paper_def given_def store_paper_def insert_into_papers_def paper_a_def
        paper_b_def sample_host_def sample_db_def Let_def)

lemma reachable_sample_db: "reachable (sample_engine b) (sample_db b)"
  by (rule reach_add [OF reach_add [OF reach_init [OF initialize_sample]
        add_paper_a [of b Map.empty]] add_paper_b [of b Map.empty]])



text \<open>
  C1. On an engine without FTS5 the database is set up all the same, without the index.
  \<^verbatim>\<open>search_papers\<close> with a query then raises \<^verbatim>\<open>OperationalError\<close>: its \<^verbatim>\<open>try\<close> block
  only assigns the statement text, so the \<^verbatim>\<open>except\<close> branch with the \<^verbatim>\<open>LIKE\<close> statement
  is never taken, and the join with the missing table fails when it is executed. Here the
  query occurs in the title of the one stored row.
\<close>

theorem search_without_fts5_raises:
  "initialize_database (sample_engine False) =
     Inr \<lparr>papers = [], papers_fts = None, sqlite_sequence = 0\<rparr> \<and>
   add_paper sample_host ''Deep Learning for X'' ''John Smith, Jane Doe'' None
     (Some ''Deep learning techniques'') (Some ''2023-05-15'') (Some ''AI'') (Some ''nlp'') False
     \<lparr>papers = [], papers_fts = None, sqlite_sequence = 0\<rparr> Map.empty =
     (Inr (Some 1), \<lparr>papers = [paper_a], papers_fts = None, sqlite_sequence = 1\<rparr>, Map.empty) \<and>
   sublist ''Deep'' (title paper_a) \<and>
   search_papers (sample_engine False)
     \<lparr>papers = [paper_a], papers_fts = None, sqlite_sequence = 1\<rparr>
     (Some ''Deep'') None None None = Inl OperationalError"
  using initialize_sample [of False] add_paper_a [of False Map.empty]
  by (simp add: search_papers_no_table given_def paper_a_def sublist_Cons_right)


lemma sample_select_deep_only:
  "filter (\<lambda>p. text_ok (sample_engine True) (Some ''deep'') p \<and> category_ok None p \<and>
                 author_ok None p \<and> year_ok (sample_engine True) None p)
     (papers (sample_db True)) = [paper_a]"
  by code_simp





lemma paper_record_a:
  "paper_record paper_a =
     [(''id'', PyInt 1), (''title'', PyStr ''Deep Learning for X''),
      (''authors'', PyStr ''John Smith, Jane Doe''),
      (''abstract'', PyStr ''Deep learning techniques''),
      (''publication_date'', PyStr ''2023-05-15''), (''category'', PyStr ''AI''),
      (''file_path'', PyNone), (''upload_date'', PyStr ''2024-01-01 00:00:00''),
      (''keywords'', PyStr ''nlp'')]"
  by (simp add: paper_record_def paper_a_def)





text \<open>
  The witness of C10: the search for \<^verbatim>\<open>deep\<close> on the sample database returns the
  mapping of \<open>paper_a\<close>, and returns it whatever hashes the rows hold.
\<close>

theorem search_papers_keys_witness:
  "search_papers (sample_engine True) (sample_db True) (Some ''deep'') None None None =
     Inr [paper_record paper_a] \<and>
   paper_record paper_a \<in> set [paper_record paper_a] \<and>
   paper_a \<in> set (papers (sample_db True)) \<and>
   paper_record paper_a =
     [(''id'', PyInt 1), (''title'', PyStr ''Deep Learning for X''),
      (''authors'', PyStr ''John Smith, Jane Doe''),
      (''abstract'', PyStr ''Deep learning techniques''),
      (''publication_date'', PyStr ''2023-05-15''), (''category'', PyStr ''AI''),
      (''file_path'', PyNone), (''upload_date'', PyStr ''2024-01-01 00:00:00''),
      (''keywords'', PyStr ''nlp'')] \<and>
   ''file_hash'' \<notin> fst ` set (paper_record paper_a) \<and>
   search_papers (sample_engine True)
     ((sample_db True)\<lparr>papers :=
        map (\<lambda>p. p\<lparr>file_hash := Some ''0123''\<rparr>) (papers (sample_db True))\<rparr>)
     (Some ''deep'') None None None = Inr [paper_record paper_a]"
proof -
  have g: "given (Some ''deep'') = Some ''deep''" by (simp add: given_def)
  have ix: "papers_fts (sample_db True) = Some [fts_of paper_a, fts_of paper_b]"
    by (simp add: sample_db_def)
  have m: "fts5_match (sample_engine True) ''deep'' =
             Some (\<lambda>f. icontains ''deep'' (fts_title f))"
    by (simp add: sample_engine_def)
  have sel: "filter (\<lambda>p. icontains ''deep'' (fts_title (fts_of p)) \<and> category_ok None p \<and>
                         author_ok None p \<and> year_ok (sample_engine True) None p)
               (papers (sample_db True)) = [paper_a]"
    by code_simp
  have run: "search_papers (sample_engine True) (sample_db True) (Some ''deep'') None None None =
             Inr [paper_record paper_a]"
    using search_papers_fts_join [OF reachable_indexed [OF reachable_sample_db [of True]] g ix m,
        of None None None]
    by (simp add: sel)
  from search_papers_keys [OF run, of "paper_record paper_a" "\<lambda>p. Some ''0123''"] run
  show ?thesis by (simp add: paper_record_a sample_db_def)
qed
subsection \<open>add_paper, case by case\<close>

lemma select_id_by_hash_Nil:
  "select_id_by_hash d h256 = [] \<longleftrightarrow> Some h256 \<notin> set (map file_hash (papers d))"
  by (auto simp: select_id_by_hash_def filter_empty_conv image_iff)

lemma store_paper_cases:
  "store_paper h ttl auth fpath fhash abstr pubdate categ kwds d fs =
     (if (fpath \<noteq> None \<and> fpath \<in> set (map file_path (papers d))) \<or>
         (fhash \<noteq> None \<and> fhash \<in> set (map file_hash (papers d)))
      then (Inl IntegrityError, d, fs)
      else (Inr (Some (sqlite_sequence d + 1)),
            \<lparr>papers = papers d @
               [\<lparr>id_col = sqlite_sequence d + 1, title = ttl, authors = auth, abstract = abstr,
                 publication_date = pubdate, category = categ, file_path = fpath,
                 file_hash = fhash, upload_date = clock h, keywords_col = kwds\<rparr>],
             papers_fts = map_option (\<lambda>ix. ix @
               [fts_of \<lparr>id_col = sqlite_sequence d + 1, title = ttl, authors = auth,
                 abstract = abstr, publication_date = pubdate, category = categ,
                 file_path = fpath, file_hash = fhash, upload_date = clock h,
                 keywords_col = kwds\<rparr>]) (papers_fts d),
             sqlite_sequence = sqlite_sequence d + 1\<rparr>, fs))"
  by (simp add: store_paper_def insert_into_papers_def Let_def)

lemma add_paper_no_path:
  "given fpath = None \<Longrightarrow>
   add_paper h ttl auth fpath abstr pubdate categ kwds flag d fs =
     store_paper h ttl auth None None abstr pubdate categ kwds d fs"
  by (simp add: add_paper_def)

lemma add_paper_missing:
  "given fpath = Some p \<Longrightarrow> fs p = None \<Longrightarrow> \<not> is_dir h p \<Longrightarrow> \<not> flag \<Longrightarrow>
   add_paper h ttl auth fpath abstr pubdate categ kwds flag d fs = (Inl FileNotFoundError, d, fs)"
  by (simp add: add_paper_def path_exists_def)

lemma add_paper_directory:
  "given fpath = Some p \<Longrightarrow> fs p = None \<Longrightarrow> is_dir h p \<Longrightarrow>
   add_paper h ttl auth fpath abstr pubdate categ kwds flag d fs = (Inl IsADirectoryError, d, fs)"
  by (simp add: add_paper_def path_exists_def calculate_file_hash_def)

lemma add_paper_present:
  "given fpath = Some p \<Longrightarrow> fs p = Some content \<Longrightarrow>
   add_paper h ttl auth fpath abstr pubdate categ kwds flag d fs =
     (if Some (sha256_hex content) \<in> set (map file_hash (papers d)) then (Inr None, d, fs)
      else store_paper h ttl auth (Some p) (Some (sha256_hex content))
             abstr pubdate categ kwds d fs)"
  using select_id_by_hash_Nil [of d "sha256_hex content"]
  by (simp add: add_paper_def path_exists_def calculate_file_hash_Some)

lemma add_paper_created:
  "given fpath = Some p \<Longrightarrow> fs p = None \<Longrightarrow> \<not> is_dir h p \<Longrightarrow> flag \<Longrightarrow>
   output_error h p = None \<Longrightarrow>
   add_paper h ttl auth fpath abstr pubdate categ kwds flag d fs =
     add_paper h ttl auth fpath abstr pubdate categ kwds flag d (fs(p \<mapsto> fpdf_bytes h))"
  by (simp add: add_paper_def path_exists_def create_sample_pdf_def)

lemma add_paper_not_created:
  "given fpath = Some p \<Longrightarrow> fs p = None \<Longrightarrow> \<not> is_dir h p \<Longrightarrow> flag \<Longrightarrow>
   output_error h p = Some e \<Longrightarrow>
   add_paper h ttl auth fpath abstr pubdate categ kwds flag d fs = (Inl e, d, fs)"
  by (simp add: add_paper_def path_exists_def create_sample_pdf_def)

lemma add_paper_present_fs:
  "given fpath = Some p \<Longrightarrow> fs p = Some content \<Longrightarrow>
   snd (snd (add_paper h ttl auth fpath abstr pubdate categ kwds flag d fs)) = fs"
  by (simp add: add_paper_present store_paper_cases)

lemma add_paper_present_not_missing:
  "given fpath = Some p \<Longrightarrow> fs p = Some content \<Longrightarrow>
   fst (add_paper h ttl auth fpath abstr pubdate categ kwds flag d fs) \<noteq> Inl FileNotFoundError"
  by (simp add: add_paper_present store_paper_cases)

lemma add_paper_file_not_found_iff:
  "fst (add_paper h ttl auth fpath abstr pubdate categ kwds flag d fs) = Inl FileNotFoundError
      \<longleftrightarrow> (\<exists>p. given fpath = Some p \<and> fs p = None \<and> \<not> is_dir h p \<and>
                (\<not> flag \<or> output_error h p = Some FileNotFoundError))"
proof (cases "given fpath")
  case None
  then show ?thesis by (simp add: add_paper_no_path store_paper_cases)
next
  case (Some p)
  note g = this
  show ?thesis
  proof (cases "fs p")
    case (Some content)
    with g add_paper_present_not_missing [of fpath p fs content]
    show ?thesis by simp
  next
    case None
    note missing = this
    show ?thesis
    proof (cases "is_dir h p")
      case True
      with g missing show ?thesis by (simp add: add_paper_directory)
    next
      case False
      note nodir = this
      show ?thesis
      proof (cases flag)
        case False
        with g missing nodir show ?thesis by (simp add: add_paper_missing)
      next
        case True
        show ?thesis
        proof (cases "output_error h p")
          case (Some e)
          with g missing nodir True show ?thesis by (simp add: add_paper_not_created)
        next
          case None
          from add_paper_present_not_missing
                 [where fs = "fs(p \<mapsto> fpdf_bytes h)" and p = p and content = "fpdf_bytes h"
                and fpath = fpath and h = h and flag = flag and d = d]
               g missing nodir True None
          show ?thesis by (simp add: add_paper_created)
        qed
      qed
    qed
  qed
qed

text \<open>
  C3, as the code has it. \<^verbatim>\<open>add_paper\<close> raises \<^verbatim>\<open>FileNotFoundError\<close> if and only if a
  non-empty \<^verbatim>\<open>file_path\<close> is given, nothing exists at that path, and either the flag is
  false or the flag is true and writing the sample document there fails with
  \<^verbatim>\<open>FileNotFoundError\<close> (the directory of the path is missing). An empty string is
  handled like no path at all. When the flag is true, nothing is at the path and the
  sample document can be written, it is written to that path and the call goes on
  exactly as it does when the file is there; when it cannot be written, the error of
  the write is raised, and neither the database nor the filesystem changes.
\<close>

theorem add_paper_file_not_found:
  "(fst (add_paper h ttl auth fpath abstr pubdate categ kwds flag d fs) = Inl FileNotFoundError
      \<longleftrightarrow> (\<exists>p. given fpath = Some p \<and> fs p = None \<and> \<not> is_dir h p \<and>
                (\<not> flag \<or> output_error h p = Some FileNotFoundError))) \<and>
   (\<forall>p. given fpath = Some p \<and> fs p = None \<and> \<not> is_dir h p \<and> flag \<and>
        output_error h p = None \<longrightarrow>
      add_paper h ttl auth fpath abstr pubdate categ kwds flag d fs =
        add_paper h ttl auth fpath abstr pubdate categ kwds flag d (fs(p \<mapsto> fpdf_bytes h)) \<and>
      snd (snd (add_paper h ttl auth fpath abstr pubdate categ kwds flag d fs)) =
        fs(p \<mapsto> fpdf_bytes h)) \<and>
   (\<forall>p e. given fpath = Some p \<and> fs p = None \<and> \<not> is_dir h p \<and> flag \<and>
        output_error h p = Some e \<longrightarrow>
      add_paper h ttl auth fpath abstr pubdate categ kwds flag d fs = (Inl e, d, fs))"
proof (intro conjI allI impI)
  show "fst (add_paper h ttl auth fpath abstr pubdate categ kwds flag d fs) = Inl FileNotFoundError
      \<longleftrightarrow> (\<exists>p. given fpath = Some p \<and> fs p = None \<and> \<not> is_dir h p \<and>
                (\<not> flag \<or> output_error h p = Some FileNotFoundError))"
    by (rule add_paper_file_not_found_iff)
next
  fix p
  assume a: "given fpath = Some p \<and> fs p = None \<and> \<not> is_dir h p \<and> flag \<and>
             output_error h p = None"
  then show "add_paper h ttl auth fpath abstr pubdate categ kwds flag d fs =
        add_paper h ttl auth fpath abstr pubdate categ kwds flag d (fs(p \<mapsto> fpdf_bytes h))"
    by (simp add: add_paper_created)
  from add_paper_present_fs
         [where fs = "fs(p \<mapsto> fpdf_bytes h)" and p = p and content = "fpdf_bytes h"
            and fpath = fpath and h = h and flag = flag and d = d] a
  show "snd (snd (add_paper h ttl auth fpath abstr pubdate categ kwds flag d fs)) =
        fs(p \<mapsto> fpdf_bytes h)"
    by (simp add: add_paper_created)
next
  fix p e
  assume "given fpath = Some p \<and> fs p = None \<and> \<not> is_dir h p \<and> flag \<and>
          output_error h p = Some e"
  then show "add_paper h ttl auth fpath abstr pubdate categ kwds flag d fs = (Inl e, d, fs)"
    by (simp add: add_paper_not_created)
qed

text \<open>
  C7. Whatever error \<^verbatim>\<open>add_paper\<close> raises, the database afterwards is the database
  before: the same rows, the same index entries, the same AUTOINCREMENT counter.
\<close>

theorem add_paper_failure_leaves_store:
  assumes "add_paper h ttl auth fpath abstr pubdate categ kwds flag d fs = (Inl e, d', fs')"
  shows "d' = d \<and> papers d' = papers d \<and> papers_fts d' = papers_fts d"
  using assms
  by (auto simp: add_paper_def store_paper_def create_sample_pdf_def
           split: option.splits sum.splits if_splits prod.splits)

lemma supplied_content_None:
  "given fpath = None \<Longrightarrow> supplied_content h fs fpath flag = None"
  by (simp add: supplied_content_def)

lemma add_paper_duplicate_iff:
  "fst (add_paper h ttl auth fpath abstr pubdate categ kwds flag d fs) = Inr None \<longleftrightarrow>
     (\<exists>content. supplied_content h fs fpath flag = Some content \<and>
                 Some (sha256_hex content) \<in> set (map file_hash (papers d)))"
proof (cases "given fpath")
  case None
  then show ?thesis
    by (simp add: add_paper_no_path store_paper_cases supplied_content_def)
next
  case (Some p)
  note g = this
  show ?thesis
  proof (cases "fs p")
    case (Some content)
    with g show ?thesis
      by (simp add: add_paper_present store_paper_cases supplied_content_def)
  next
    case None
    note missing = this
    show ?thesis
    proof (cases "is_dir h p")
      case True
      with g missing show ?thesis
        by (simp add: add_paper_directory supplied_content_def)
    next
      case False
      note nodir = this
      show ?thesis
      proof (cases flag)
        case False
        with g missing nodir show ?thesis
          by (simp add: add_paper_missing supplied_content_def)
      next
        case True
        show ?thesis
        proof (cases "output_error h p")
          case (Some e)
          with g missing nodir True show ?thesis
            by (simp add: add_paper_not_created supplied_content_def)
        next
          case None
          from add_paper_present
                 [where fs = "fs(p \<mapsto> fpdf_bytes h)" and p = p and content = "fpdf_bytes h"
                and fpath = fpath and h = h and flag = flag and d = d]
               g missing nodir True None
          show ?thesis
            by (simp add: add_paper_created store_paper_cases supplied_content_def)
        qed
      qed
    qed
  qed
qed

lemma add_paper_duplicate_store:
  assumes "fst (add_paper h ttl auth fpath abstr pubdate categ kwds flag d fs) = Inr None"
  shows "fst (snd (add_paper h ttl auth fpath abstr pubdate categ kwds flag d fs)) = d"
proof -
  obtain r d' fs' where
    run: "add_paper h ttl auth fpath abstr pubdate categ kwds flag d fs = (r, d', fs')"
    by (cases "add_paper h ttl auth fpath abstr pubdate categ kwds flag d fs") auto
  with assms have "r = Inr None" by simp
  with run have "d' = d"
    by (auto simp: add_paper_def store_paper_def create_sample_pdf_def
             split: option.splits sum.splits if_splits prod.splits)
  with run show ?thesis by simp
qed

lemma store_paper_stored:
  assumes "store_paper h ttl auth fpath fhash abstr pubdate categ kwds d fs = (Inr (Some i), d', fs')"
  shows "papers d' = papers d @
           [\<lparr>id_col = i, title = ttl, authors = auth, abstract = abstr,
             publication_date = pubdate, category = categ, file_path = fpath,
             file_hash = fhash, upload_date = clock h, keywords_col = kwds\<rparr>] \<and> fs' = fs"
proof (cases "(fpath \<noteq> None \<and> fpath \<in> set (map file_path (papers d))) \<or>
              (fhash \<noteq> None \<and> fhash \<in> set (map file_hash (papers d)))")
  case True
  with assms show ?thesis by (simp add: store_paper_cases)
next
  case False
  from assms False have "i = sqlite_sequence d + 1" and "fs' = fs"
    and "papers d' = papers d @
           [\<lparr>id_col = sqlite_sequence d + 1, title = ttl, authors = auth, abstract = abstr,
             publication_date = pubdate, category = categ, file_path = fpath,
             file_hash = fhash, upload_date = clock h, keywords_col = kwds\<rparr>]"
    by (auto simp: store_paper_cases)
  then show ?thesis by simp
qed

lemma add_paper_stored_present:
  assumes "given fpath = Some p" and "fs p = Some content"
      and "add_paper h ttl auth fpath abstr pubdate categ kwds flag d fs = (Inr (Some i), d', fs')"
  shows "\<exists>row. papers d' = papers d @ [row] \<and> id_col row = i \<and> file_path row = Some p \<and>
           fs' p = Some content \<and> file_hash row = Some (sha256_hex content) \<and>
           Some (sha256_hex content) \<notin> set (map file_hash (papers d))"
proof -
  have fresh: "Some (sha256_hex content) \<notin> set (map file_hash (papers d))"
  proof
    assume "Some (sha256_hex content) \<in> set (map file_hash (papers d))"
    with assms show False by (simp add: add_paper_present)
  qed
  with assms have "store_paper h ttl auth (Some p) (Some (sha256_hex content))
                     abstr pubdate categ kwds d fs = (Inr (Some i), d', fs')"
    by (simp add: add_paper_present)
  from store_paper_stored [OF this] assms(2) fresh show ?thesis by simp
qed

lemma add_paper_stored:
  assumes "add_paper h ttl auth fpath abstr pubdate categ kwds flag d fs = (Inr (Some i), d', fs')"
  shows "\<exists>row. papers d' = papers d @ [row] \<and> id_col row = i \<and>
           (case given fpath of
              None \<Rightarrow> file_path row = None \<and> file_hash row = None
            | Some p \<Rightarrow>
                file_path row = Some p \<and>
                (\<exists>content. fs' p = Some content \<and>
                   file_hash row = Some (sha256_hex content) \<and>
                   Some (sha256_hex content) \<notin> set (map file_hash (papers d))))"
proof (cases "given fpath")
  case None
  with assms have "store_paper h ttl auth None None abstr pubdate categ kwds d fs =
                     (Inr (Some i), d', fs')"
    by (simp add: add_paper_no_path)
  from store_paper_stored [OF this] None show ?thesis by simp
next
  case (Some p)
  note g = this
  show ?thesis
  proof (cases "fs p")
    case (Some content)
    from add_paper_stored_present [OF g Some assms] g
    show ?thesis by auto
  next
    case None
    note missing = this
    show ?thesis
    proof (cases "is_dir h p")
      case True
      with g missing assms show ?thesis by (simp add: add_paper_directory)
    next
      case False
      note nodir = this
      show ?thesis
      proof (cases flag)
        case False
        with g missing nodir assms show ?thesis by (simp add: add_paper_missing)
      next
        case True
        show ?thesis
        proof (cases "output_error h p")
          case (Some e)
          with g missing nodir True assms show ?thesis by (simp add: add_paper_not_created)
        next
          case None
          with g missing nodir True assms
          have "add_paper h ttl auth fpath abstr pubdate categ kwds flag d
                  (fs(p \<mapsto> fpdf_bytes h)) = (Inr (Some i), d', fs')"
            by (simp add: add_paper_created)
          from add_paper_stored_present
                 [where fs = "fs(p \<mapsto> fpdf_bytes h)" and content = "fpdf_bytes h",
                  OF g _ this] g
          show ?thesis by auto
        qed
      qed
    qed
  qed
qed

text \<open>
  C2. \<^verbatim>\<open>add_paper\<close> returns \<^verbatim>\<open>None\<close>, and then leaves the database as it was, exactly
  when a stored row has the SHA-256 fingerprint of the bytes of the supplied file (the
  file at the given path, or the sample document written there when it was missing and
  the flag is set). The path plays no part: when an add of the file at \<open>p1\<close> has stored a
  row, an add of a file at \<open>p2\<close> with the same bytes returns \<^verbatim>\<open>None\<close>, changes nothing, and
  exactly one stored row has that fingerprint; and an add that gives the path of a
  stored row, with bytes whose fingerprint no stored row has, is not answered with
  \<^verbatim>\<open>None\<close> (the \<^verbatim>\<open>UNIQUE\<close> constraint on \<^verbatim>\<open>file_path\<close> makes the insert raise).
\<close>

theorem add_paper_duplicate:
  "(fst (add_paper h ttl auth fpath abstr pubdate categ kwds flag d fs) = Inr None \<longleftrightarrow>
      (\<exists>content. supplied_content h fs fpath flag = Some content \<and>
                  Some (sha256_hex content) \<in> set (map file_hash (papers d)))) \<and>
   (fst (add_paper h ttl auth fpath abstr pubdate categ kwds flag d fs) = Inr None \<longrightarrow>
      fst (snd (add_paper h ttl auth fpath abstr pubdate categ kwds flag d fs)) = d) \<and>
   (add_paper h ttl auth (Some p1) abstr pubdate categ kwds flag d fs = (Inr (Some i), d1, fs1) \<and>
    p1 \<noteq> [] \<and> p2 \<noteq> [] \<and> fs1 p2 = fs1 p1 \<longrightarrow>
      add_paper h2 ttl2 auth2 (Some p2) abstr2 pubdate2 categ2 kwds2 flag2 d1 fs1 =
        (Inr None, d1, fs1) \<and>
      (\<exists>content. fs1 p1 = Some content \<and>
         length (filter (\<lambda>x. file_hash x = Some (sha256_hex content)) (papers d1)) = 1)) \<and>
   (p \<noteq> [] \<and> Some p \<in> set (map file_path (papers d)) \<and> fs p = Some bytes \<and>
    Some (sha256_hex bytes) \<notin> set (map file_hash (papers d)) \<longrightarrow>
      add_paper h ttl auth (Some p) abstr pubdate categ kwds flag d fs =
        (Inl IntegrityError, d, fs))"
proof -
  have one: "fst (add_paper h ttl auth fpath abstr pubdate categ kwds flag d fs) = Inr None \<longleftrightarrow>
      (\<exists>content. supplied_content h fs fpath flag = Some content \<and>
                  Some (sha256_hex content) \<in> set (map file_hash (papers d)))"
    by (rule add_paper_duplicate_iff)
  have two: "fst (add_paper h ttl auth fpath abstr pubdate categ kwds flag d fs) = Inr None \<longrightarrow>
      fst (snd (add_paper h ttl auth fpath abstr pubdate categ kwds flag d fs)) = d"
    by (blast intro: add_paper_duplicate_store)
  have three: "add_paper h2 ttl2 auth2 (Some p2) abstr2 pubdate2 categ2 kwds2 flag2 d1 fs1 =
          (Inr None, d1, fs1) \<and>
        (\<exists>content. fs1 p1 = Some content \<and>
           length (filter (\<lambda>x. file_hash x = Some (sha256_hex content)) (papers d1)) = 1)"
    if a: "add_paper h ttl auth (Some p1) abstr pubdate categ kwds flag d fs =
               (Inr (Some i), d1, fs1) \<and> p1 \<noteq> [] \<and> p2 \<noteq> [] \<and> fs1 p2 = fs1 p1"
  proof -
    from a have g1: "given (Some p1) = Some p1" and g2: "given (Some p2) = Some p2"
      by (simp_all add: given_def)
    from a have run: "add_paper h ttl auth (Some p1) abstr pubdate categ kwds flag d fs =
               (Inr (Some i), d1, fs1)" by simp
    from add_paper_stored [OF run] g1
    obtain row content where row: "papers d1 = papers d @ [row]"
      and c: "fs1 p1 = Some content" and hr: "file_hash row = Some (sha256_hex content)"
      and fresh: "Some (sha256_hex content) \<notin> set (map file_hash (papers d))"
      by auto
    from a c have c2: "fs1 p2 = Some content" by simp
    from row hr have "Some (sha256_hex content) \<in> set (map file_hash (papers d1))" by simp
    with add_paper_present
           [where fs = fs1 and p = p2 and content = content and fpath = "Some p2" and h = h2
              and ttl = ttl2 and auth = auth2 and abstr = abstr2 and pubdate = pubdate2
              and categ = categ2 and kwds = kwds2 and flag = flag2 and d = d1] g2 c2
    have dup: "add_paper h2 ttl2 auth2 (Some p2) abstr2 pubdate2 categ2 kwds2 flag2 d1 fs1 =
               (Inr None, d1, fs1)"
      by simp
    from fresh have "filter (\<lambda>x. file_hash x = Some (sha256_hex content)) (papers d) = []"
      by (auto simp: filter_empty_conv image_iff)
    with row hr
    have "length (filter (\<lambda>x. file_hash x = Some (sha256_hex content)) (papers d1)) = 1"
      by simp
    with c dup show ?thesis by blast
  qed
  have four: "add_paper h ttl auth (Some p) abstr pubdate categ kwds flag d fs =
          (Inl IntegrityError, d, fs)"
    if a: "p \<noteq> [] \<and> Some p \<in> set (map file_path (papers d)) \<and> fs p = Some bytes \<and>
             Some (sha256_hex bytes) \<notin> set (map file_hash (papers d))"
  proof -
    from a have g: "given (Some p) = Some p" by (simp add: given_def)
    from a g add_paper_present
           [where fs = fs and p = p and content = bytes and fpath = "Some p" and h = h
              and ttl = ttl and auth = auth and abstr = abstr and pubdate = pubdate
              and categ = categ and kwds = kwds and flag = flag and d = d]
    show ?thesis by (simp add: store_paper_cases)
  qed
  from one two three four show ?thesis by blast
qed

subsection \<open>A hash only with a path\<close>

lemma paired_clear:
  "list_all (\<lambda>p. file_path p = None \<longrightarrow> file_hash p = None) (papers d) \<Longrightarrow>
   list_all (\<lambda>p. file_path p = None \<longrightarrow> file_hash p = None)
     (papers (fst (clear_test_data d fs)))"
  by (simp add: clear_test_data_def Let_def list_all_iff)

lemma paired_add_paper:
  assumes "list_all (\<lambda>p. file_path p = None \<longrightarrow> file_hash p = None) (papers d)"
      and "add_paper h ttl auth fpath abstr pubdate categ kwds flag d fs = (r, d', fs')"
  shows "list_all (\<lambda>p. file_path p = None \<longrightarrow> file_hash p = None) (papers d')"
proof (cases r)
  case (Inl e)
  with add_paper_failure_leaves_store [of h ttl auth fpath abstr pubdate categ kwds flag d fs e d' fs']
       assms
  show ?thesis by simp
next
  case (Inr v)
  show ?thesis
  proof (cases v)
    case None
    with Inr assms(2)
         add_paper_duplicate_store [of h ttl auth fpath abstr pubdate categ kwds flag d fs]
    have "d' = d" by simp
    with assms(1) show ?thesis by simp
  next
    case (Some i)
    with Inr assms(2)
         add_paper_stored [of h ttl auth fpath abstr pubdate categ kwds flag d fs i d' fs']
    obtain row where "papers d' = papers d @ [row]"
      and "file_path row = None \<longrightarrow> file_hash row = None"
      by (cases "given fpath") auto
    with assms(1) show ?thesis by simp
  qed
qed

lemma reachable_paired:
  "reachable eng d \<Longrightarrow>
   list_all (\<lambda>p. file_path p = None \<longrightarrow> file_hash p = None) (papers d)"
proof (induction rule: reachable.induct)
  case (reach_init d)
  then show ?case
    by (auto simp: initialize_database_def create_virtual_table_def split: if_splits)
next
  case (reach_add d h ttl auth fpath abstr pubdate categ kwds flag fs r d' fs')
  then show ?case by (blast intro: paired_add_paper)
next
  case (reach_clear d fs d' fs')
  from paired_clear [OF reach_clear.IH, of fs] reach_clear.hyps(2) show ?case by simp
qed

text \<open>
  C9. In every database reached through the public operations a row without
  \<^verbatim>\<open>file_path\<close> has no \<^verbatim>\<open>file_hash\<close>. A successful \<^verbatim>\<open>add_paper\<close> appends one row: with both
  columns NULL when no path is given, and otherwise with the path and the SHA-256
  fingerprint of the bytes at that path.
\<close>

theorem file_hash_needs_file_path:
  "(reachable eng d \<longrightarrow> (\<forall>p\<in>set (papers d). file_path p = None \<longrightarrow> file_hash p = None)) \<and>
   (add_paper h ttl auth fpath abstr pubdate categ kwds flag d fs = (Inr (Some i), d', fs') \<longrightarrow>
      (\<exists>row. papers d' = papers d @ [row] \<and> id_col row = i \<and>
         (case given fpath of
            None \<Rightarrow> file_path row = None \<and> file_hash row = None
          | Some p \<Rightarrow>
              file_path row = Some p \<and>
              (\<exists>content. fs' p = Some content \<and>
                          file_hash row = Some (sha256_hex content)))))"
proof (intro conjI impI)
  assume "reachable eng d"
  from reachable_paired [OF this]
  show "\<forall>p\<in>set (papers d). file_path p = None \<longrightarrow> file_hash p = None"
    by (simp add: list_all_iff)
next
  assume "add_paper h ttl auth fpath abstr pubdate categ kwds flag d fs = (Inr (Some i), d', fs')"
  from add_paper_stored [OF this]
  show "\<exists>row. papers d' = papers d @ [row] \<and> id_col row = i \<and>
         (case given fpath of
            None \<Rightarrow> file_path row = None \<and> file_hash row = None
          | Some p \<Rightarrow>
              file_path row = Some p \<and>
              (\<exists>content. fs' p = Some content \<and>
                          file_hash row = Some (sha256_hex content)))"
    by (cases "given fpath") auto
qed

subsection \<open>The scenario with files\<close>

lemma given_Some: "p \<noteq> [] \<Longrightarrow> given (Some p) = Some p"
  by (simp add: given_def)

lemma add_a_pdf:
  "add_paper sample_host ''Deep Learning for X'' ''John Smith'' (Some ''a.pdf'') None None
     (Some ''Machine Learning'') None False new_db sample_fs = (Inr (Some 1), file_db, sample_fs)"
proof -
  have "add_paper sample_host ''Deep Learning for X'' ''John Smith'' (Some ''a.pdf'') None None
          (Some ''Machine Learning'') None False new_db sample_fs =
        store_paper sample_host ''Deep Learning for X'' ''John Smith'' (Some ''a.pdf'')
          (Some (sha256_hex abc_bytes)) None None (Some ''Machine Learning'') None new_db sample_fs"
    using add_paper_present [where fpath = "Some ''a.pdf''" and p = "''a.pdf''"
        and fs = sample_fs and content = abc_bytes and d = new_db]
    by (simp add: given_def sample_fs_def new_db_def)
  then show ?thesis
    by (simp add: store_paper_cases new_db_def file_db_def paper_f_def sample_host_def fts_of_def)
qed

lemma reachable_file_db: "reachable (sample_engine True) file_db"
proof -
  have "initialize_database (sample_engine True) = Inr new_db"
    by (simp add: initialize_sample new_db_def)
  from reach_add [OF reach_init [OF this] add_a_pdf] show ?thesis .
qed

lemma file_db_hashes: "file_hash ` set (papers file_db) = {Some (sha256_hex abc_bytes)}"
  by (simp add: file_db_def paper_f_def)

lemma file_db_paths: "file_path ` set (papers file_db) = {Some ''a.pdf''}"
  by (simp add: file_db_def paper_f_def)

lemma add_missing_pdf:
  "add_paper sample_host ''T'' ''A'' (Some ''missing.pdf'') None None None None False
     file_db sample_fs = (Inl FileNotFoundError, file_db, sample_fs)"
  using add_paper_missing [where fpath = "Some ''missing.pdf''" and p = "''missing.pdf''"
      and fs = sample_fs and flag = False and h = sample_host]
  by (simp add: given_def sample_fs_def sample_host_def)

lemma sample_host_missing_pdf:
  "\<not> is_dir sample_host ''missing.pdf''" "output_error sample_host ''missing.pdf'' = None"
  by (simp_all add: sample_host_def)

lemma sample_host_nodir:
  "\<not> is_dir sample_host ''nodir/x.pdf''"
  "output_error sample_host ''nodir/x.pdf'' = Some FileNotFoundError"
  by (simp_all add: sample_host_def)

lemma add_nodir_pdf:
  "add_paper sample_host ''T'' ''A'' (Some ''nodir/x.pdf'') None None None None True
     d sample_fs = (Inl FileNotFoundError, d, sample_fs)"
  using add_paper_not_created [where fpath = "Some ''nodir/x.pdf''" and p = "''nodir/x.pdf''"
      and fs = sample_fs and flag = True and h = sample_host and e = FileNotFoundError]
    sample_host_nodir
  by (simp add: given_def sample_fs_def)

lemma add_docs_directory:
  "add_paper sample_host ''T'' ''A'' (Some ''docs'') None None None None flag
     d sample_fs = (Inl IsADirectoryError, d, sample_fs)"
  using add_paper_directory [where fpath = "Some ''docs''" and p = "''docs''"
      and fs = sample_fs and h = sample_host]
  by (simp add: given_def sample_fs_def sample_host_def)

lemma add_changed_a_pdf:
  "add_paper sample_host ''T'' ''A'' (Some ''a.pdf'') None None None None False
     file_db (sample_fs(''a.pdf'' \<mapsto> [])) =
   (Inl IntegrityError, file_db, sample_fs(''a.pdf'' \<mapsto> []))"
  using add_paper_present [where fpath = "Some ''a.pdf''" and p = "''a.pdf''"
      and fs = "sample_fs(''a.pdf'' \<mapsto> [])" and content = "[]" and d = file_db]
    sha256_hex_empty_neq_abc
  by (simp add: given_def store_paper_cases file_db_hashes file_db_paths)

text \<open>
  The witness of C2: \<^verbatim>\<open>a.pdf\<close> is added to a new database; adding its copy \<^verbatim>\<open>b.pdf\<close>
  returns \<^verbatim>\<open>None\<close> and the one row stays alone; adding \<^verbatim>\<open>a.pdf\<close> again after its content
  became empty raises \<^verbatim>\<open>IntegrityError\<close>.
\<close>

theorem add_paper_duplicate_witness:
  "add_paper sample_host ''Deep Learning for X'' ''John Smith'' (Some ''a.pdf'') None None
     (Some ''Machine Learning'') None False new_db sample_fs = (Inr (Some 1), file_db, sample_fs) \<and>
   sample_fs ''b.pdf'' = sample_fs ''a.pdf'' \<and>
   add_paper sample_host ''Paper B'' ''Jane Doe'' (Some ''b.pdf'') None None None None False
     file_db sample_fs = (Inr None, file_db, sample_fs) \<and>
   length (papers file_db) = 1 \<and>
   Some ''a.pdf'' \<in> set (map file_path (papers file_db)) \<and>
   Some (sha256_hex []) \<notin> set (map file_hash (papers file_db)) \<and>
   add_paper sample_host ''Deep Learning for X'' ''John Smith'' (Some ''a.pdf'') None None
     (Some ''Machine Learning'') None False file_db (sample_fs(''a.pdf'' \<mapsto> [])) =
     (Inl IntegrityError, file_db, sample_fs(''a.pdf'' \<mapsto> []))"
proof -
  have same: "sample_fs ''b.pdf'' = sample_fs ''a.pdf''"
    by (simp add: sample_fs_def)
  have fresh: "Some (sha256_hex []) \<notin> set (map file_hash (papers file_db))"
    using sha256_hex_empty_neq_abc by (simp add: file_db_hashes)
  from add_paper_duplicate
         [where h = sample_host and ttl = "''Deep Learning for X''" and auth = "''John Smith''"
            and abstr = None and pubdate = None and categ = "Some ''Machine Learning''"
            and kwds = None and flag = False and d = new_db and fs = sample_fs
            and ?p1.0 = "''a.pdf''" and i = 1 and ?d1.0 = file_db and ?fs1.0 = sample_fs
            and ?p2.0 = "''b.pdf''" and ?h2.0 = sample_host and ?ttl2.0 = "''Paper B''"
            and ?auth2.0 = "''Jane Doe''" and ?abstr2.0 = None and ?pubdate2.0 = None
            and ?categ2.0 = None and ?kwds2.0 = None and ?flag2.0 = False]
       add_a_pdf same
  have second: "add_paper sample_host ''Paper B'' ''Jane Doe'' (Some ''b.pdf'') None None None
                  None False file_db sample_fs = (Inr None, file_db, sample_fs)"
    by simp
  from add_paper_duplicate
         [where h = sample_host and ttl = "''Deep Learning for X''" and auth = "''John Smith''"
            and abstr = None and pubdate = None and categ = "Some ''Machine Learning''"
            and kwds = None and flag = False and d = file_db
            and fs = "sample_fs(''a.pdf'' \<mapsto> [])" and p = "''a.pdf''" and bytes = "[]"]
       fresh
  have third: "add_paper sample_host ''Deep Learning for X'' ''John Smith'' (Some ''a.pdf'') None
                 None (Some ''Machine Learning'') None False file_db
                 (sample_fs(''a.pdf'' \<mapsto> [])) =
               (Inl IntegrityError, file_db, sample_fs(''a.pdf'' \<mapsto> []))"
    by (simp add: file_db_paths)
  from add_a_pdf same second third fresh show ?thesis
    by (simp add: file_db_paths) (simp add: file_db_def)
qed

text \<open>
  The witness of C3. Nothing is at \<^verbatim>\<open>missing.pdf\<close>: the call raises
  \<^verbatim>\<open>FileNotFoundError\<close> when the flag is false; when it is true the sample document is
  written there and the paper is stored. Nothing is at \<^verbatim>\<open>nodir/x.pdf\<close> and there is no
  directory \<^verbatim>\<open>nodir\<close>: with the flag true the write fails and the call raises
  \<^verbatim>\<open>FileNotFoundError\<close>. The path \<^verbatim>\<open>docs\<close> names a directory: the error is another one.
\<close>

theorem add_paper_file_not_found_witness:
  "given (Some ''missing.pdf'') = Some ''missing.pdf'' \<and> sample_fs ''missing.pdf'' = None \<and>
   \<not> is_dir sample_host ''missing.pdf'' \<and> output_error sample_host ''missing.pdf'' = None \<and>
   fst (add_paper sample_host ''T'' ''A'' (Some ''missing.pdf'') None None None None False
          new_db sample_fs) = Inl FileNotFoundError \<and>
   add_paper sample_host ''T'' ''A'' (Some ''missing.pdf'') None None None None True
     new_db sample_fs =
   add_paper sample_host ''T'' ''A'' (Some ''missing.pdf'') None None None None True
     new_db (sample_fs(''missing.pdf'' \<mapsto> fpdf_bytes sample_host)) \<and>
   snd (snd (add_paper sample_host ''T'' ''A'' (Some ''missing.pdf'') None None None None True
               new_db sample_fs)) = sample_fs(''missing.pdf'' \<mapsto> fpdf_bytes sample_host) \<and>
   fst (add_paper sample_host ''T'' ''A'' (Some ''missing.pdf'') None None None None True
          new_db sample_fs) = Inr (Some 1) \<and>
   given (Some ''nodir/x.pdf'') = Some ''nodir/x.pdf'' \<and> sample_fs ''nodir/x.pdf'' = None \<and>
   \<not> is_dir sample_host ''nodir/x.pdf'' \<and>
   output_error sample_host ''nodir/x.pdf'' = Some FileNotFoundError \<and>
   add_paper sample_host ''T'' ''A'' (Some ''nodir/x.pdf'') None None None None True
     new_db sample_fs = (Inl FileNotFoundError, new_db, sample_fs) \<and>
   is_dir sample_host ''docs'' \<and>
   fst (add_paper sample_host ''T'' ''A'' (Some ''docs'') None None None None False
          new_db sample_fs) = Inl IsADirectoryError"
proof -
  have g: "given (Some ''missing.pdf'') = Some ''missing.pdf''"
          "given (Some ''nodir/x.pdf'') = Some ''nodir/x.pdf''"
    by (simp_all add: given_def)
  have m: "sample_fs ''missing.pdf'' = None" "sample_fs ''nodir/x.pdf'' = None"
    by (simp_all add: sample_fs_def)
  have dir: "is_dir sample_host ''docs''" by (simp add: sample_host_def)
  have stored: "fst (add_paper sample_host ''T'' ''A'' (Some ''missing.pdf'') None None None None
                  True new_db (sample_fs(''missing.pdf'' \<mapsto> fpdf_bytes sample_host))) =
                Inr (Some 1)"
    using add_paper_present [where fpath = "Some ''missing.pdf''" and p = "''missing.pdf''"
        and fs = "sample_fs(''missing.pdf'' \<mapsto> fpdf_bytes sample_host)"
        and content = "fpdf_bytes sample_host" and d = new_db] g
    by (simp add: store_paper_cases new_db_def)
  from add_paper_file_not_found
         [where h = sample_host and ttl = "''T''" and auth = "''A''"
            and fpath = "Some ''missing.pdf''" and abstr = None and pubdate = None
            and categ = None and kwds = None and flag = False and d = new_db and fs = sample_fs]
       g m sample_host_missing_pdf
  have one: "fst (add_paper sample_host ''T'' ''A'' (Some ''missing.pdf'') None None None None
               False new_db sample_fs) = Inl FileNotFoundError"
    by simp
  from add_paper_file_not_found
         [where h = sample_host and ttl = "''T''" and auth = "''A''"
            and fpath = "Some ''missing.pdf''" and abstr = None and pubdate = None
            and categ = None and kwds = None and flag = True and d = new_db and fs = sample_fs]
       add_paper_present_fs
         [where fpath = "Some ''missing.pdf''" and p = "''missing.pdf''"
            and fs = "sample_fs(''missing.pdf'' \<mapsto> fpdf_bytes sample_host)"
            and content = "fpdf_bytes sample_host" and h = sample_host and flag = True
            and d = new_db]
       g m sample_host_missing_pdf
  have two: "add_paper sample_host ''T'' ''A'' (Some ''missing.pdf'') None None None None True
               new_db sample_fs =
             add_paper sample_host ''T'' ''A'' (Some ''missing.pdf'') None None None None True
               new_db (sample_fs(''missing.pdf'' \<mapsto> fpdf_bytes sample_host))"
    and three: "snd (snd (add_paper sample_host ''T'' ''A'' (Some ''missing.pdf'') None None
                  None None True new_db sample_fs)) =
                sample_fs(''missing.pdf'' \<mapsto> fpdf_bytes sample_host)"
    by simp_all
  from add_paper_file_not_found
         [where h = sample_host and ttl = "''T''" and auth = "''A''"
            and fpath = "Some ''nodir/x.pdf''" and abstr = None and pubdate = None
            and categ = None and kwds = None and flag = True and d = new_db and fs = sample_fs]
       g m sample_host_nodir
  have four: "add_paper sample_host ''T'' ''A'' (Some ''nodir/x.pdf'') None None None None True
                new_db sample_fs = (Inl FileNotFoundError, new_db, sample_fs)"
    by simp
  from one two three four stored g m dir sample_host_missing_pdf sample_host_nodir
  show ?thesis by (simp add: add_docs_directory)
qed

text \<open>
  Where C3 as stated fails. The path \<^verbatim>\<open>""\<close> is supplied, no file is there, the flag is
  false, and nothing is raised: Python's truth test takes the empty string for no path,
  and the paper is stored without path and hash. And with the flag true the call raises
  \<^verbatim>\<open>FileNotFoundError\<close> all the same when the sample document cannot be written,
  here to \<^verbatim>\<open>nodir/x.pdf\<close> where no directory \<^verbatim>\<open>nodir\<close> exists; nothing is stored.
\<close>

theorem add_paper_empty_path_counterexample:
  "sample_fs [] = None \<and>
   add_paper sample_host ''T'' ''A'' (Some []) None None None None False new_db sample_fs =
     (Inr (Some 1),
      \<lparr>papers = [\<lparr>id_col = 1, title = ''T'', authors = ''A'', abstract = None,
                   publication_date = None, category = None, file_path = None,
                   file_hash = None, upload_date = ''2024-01-01 00:00:00'',
                   keywords_col = None\<rparr>],
       papers_fts = Some [\<lparr>fts_rowid = 1, fts_title = ''T'', fts_authors = ''A'',
                           fts_abstract = None, fts_keywords = None\<rparr>],
       sqlite_sequence = 1\<rparr>,
      sample_fs) \<and>
   sample_fs ''nodir/x.pdf'' = None \<and>
   add_paper sample_host ''T'' ''A'' (Some ''nodir/x.pdf'') None None None None True
     new_db sample_fs = (Inl FileNotFoundError, new_db, sample_fs)"
proof -
  have one: "sample_fs [] = None" "sample_fs ''nodir/x.pdf'' = None"
    by (simp_all add: sample_fs_def)
  have two: "add_paper sample_host ''T'' ''A'' (Some []) None None None None False new_db
               sample_fs =
     (Inr (Some 1),
      \<lparr>papers = [\<lparr>id_col = 1, title = ''T'', authors = ''A'', abstract = None,
                   publication_date = None, category = None, file_path = None,
                   file_hash = None, upload_date = ''2024-01-01 00:00:00'',
                   keywords_col = None\<rparr>],
       papers_fts = Some [\<lparr>fts_rowid = 1, fts_title = ''T'', fts_authors = ''A'',
                           fts_abstract = None, fts_keywords = None\<rparr>],
       sqlite_sequence = 1\<rparr>,
      sample_fs)"
    by (simp add: add_paper_no_path given_def store_paper_cases new_db_def sample_host_def
          fts_of_def)
  from one two add_nodir_pdf [of new_db] show ?thesis by simp
qed

text \<open>
  The witness of C7: three errors, each leaving \<open>file_db\<close> as it was. No file at the
  path and the flag false; the flag true and the sample document cannot be written; the
  file is there with new content, and its path is that of a stored row.
\<close>

theorem add_paper_failure_leaves_store_witness:
  "add_paper sample_host ''T'' ''A'' (Some ''missing.pdf'') None None None None False
     file_db sample_fs = (Inl FileNotFoundError, file_db, sample_fs) \<and>
   add_paper sample_host ''T'' ''A'' (Some ''nodir/x.pdf'') None None None None True
     file_db sample_fs = (Inl FileNotFoundError, file_db, sample_fs) \<and>
   add_paper sample_host ''T'' ''A'' (Some ''a.pdf'') None None None None False
     file_db (sample_fs(''a.pdf'' \<mapsto> [])) =
     (Inl IntegrityError, file_db, sample_fs(''a.pdf'' \<mapsto> [])) \<and>
   papers file_db = [paper_f] \<and> papers_fts file_db = Some [fts_of paper_f]"
  using add_paper_failure_leaves_store [OF add_missing_pdf]
        add_paper_failure_leaves_store [OF add_nodir_pdf [of file_db]]
        add_paper_failure_leaves_store [OF add_changed_a_pdf]
        add_missing_pdf add_changed_a_pdf add_nodir_pdf [of file_db]
  by (simp add: file_db_def)

text \<open>
  The witness of C9: the sample database is reachable and its first row has neither path
  nor hash; the row that the add of \<^verbatim>\<open>a.pdf\<close> appends has the path and the fingerprint
  of the file's bytes.
\<close>

theorem file_hash_needs_file_path_witness:
  "reachable (sample_engine True) (sample_db True) \<and>
   paper_a \<in> set (papers (sample_db True)) \<and>
   file_path paper_a = None \<and> file_hash paper_a = None \<and>
   add_paper sample_host ''Deep Learning for X'' ''John Smith'' (Some ''a.pdf'') None None
     (Some ''Machine Learning'') None False new_db sample_fs = (Inr (Some 1), file_db, sample_fs) \<and>
   papers file_db = papers new_db @ [paper_f] \<and>
   file_path paper_f = Some ''a.pdf'' \<and> sample_fs ''a.pdf'' = Some abc_bytes \<and>
   file_hash paper_f = Some (sha256_hex abc_bytes)"
  using file_hash_needs_file_path
          [where eng = "sample_engine True" and d = "sample_db True"]
        file_hash_needs_file_path
          [where h = sample_host and ttl = "''Deep Learning for X''" and auth = "''John Smith''"
             and fpath = "Some ''a.pdf''" and abstr = None and pubdate = None
             and categ = "Some ''Machine Learning''" and kwds = None and flag = False
             and d = new_db and fs = sample_fs and i = 1 and d' = file_db and fs' = sample_fs]
        reachable_sample_db [of True] add_a_pdf
  by (simp add: sample_db_def paper_a_def file_db_def new_db_def paper_f_def sample_fs_def)

end
